theory Spec2Isabelle
  imports Complex_Main "HOL-Library.Word"
begin

unbundle bit_operations_syntax

section \<open>Basic types (AnalyzerConfig.h)\<close>

text \<open>
  The library targets the ESP32 (ESP_fft, log_e), a 32-bit platform: \<open>unsigned\<close>,
  \<open>size_t\<close> and \<open>unsigned long\<close> (\<open>hash_t\<close>) are 32-bit words, \<open>unsigned short\<close>
  (\<open>signature_t\<close>, \<open>decibel_t\<close>) is a 16-bit word. Arithmetic on words wraps around
  as the C++ arithmetic does.
\<close>

type_synonym u32 = "32 word"
type_synonym u16 = "16 word"
type_synonym signature_t = "16 word"
type_synonym decibel_t = "16 word"
type_synonym hash_t = "32 word"

text \<open>
  A C++ \<open>float\<close>/\<open>double\<close> value. Finite values are carried as exact reals (rounding
  and the sign of zero are not modelled); the special values of IEEE arithmetic are
  constructors of their own, so that a division by zero of the source is an infinity or
  a NaN of the model and never HOL's \<open>x / 0 = 0\<close>.
\<close>

datatype flt = Fin real | PInf | NInf | NaN

text \<open>Addresses: of arrays of \<open>unsigned\<close>, and of blocks handed out by \<open>new\<close>.\<close>

type_synonym addr = nat

definition ANALYZER_DEFAULT_GAIN :: u16 where
  "ANALYZER_DEFAULT_GAIN = 75"

definition ANALYZER_DEFAULT_MICSENS :: flt where
  "ANALYZER_DEFAULT_MICSENS = Fin (5012 / 1000)"

definition ANALYZER_DEFAULT_SAMPLEFREQ :: u32 where
  "ANALYZER_DEFAULT_SAMPLEFREQ = 44100"

definition ANALYZER_DEFAULT_FFTLENGTH :: u32 where
  "ANALYZER_DEFAULT_FFTLENGTH = 512"

definition ANALYZER_DEFAULT_ROLLOFF_PERCENTILE :: flt where
  "ANALYZER_DEFAULT_ROLLOFF_PERCENTILE = Fin (85 / 100)"

definition ANALYZER_DEFAULT_FUZZFACTOR :: u32 where
  "ANALYZER_DEFAULT_FUZZFACTOR = 32"

definition ANALYZER_DEFAULT_NUMRANGES :: u32 where
  "ANALYZER_DEFAULT_NUMRANGES = 6"

definition ANALYZER_DEFAULT_RANGES_256 :: "u32 list" where
  "ANALYZER_DEFAULT_RANGES_256 = [5, 10, 20, 40, 80, 256]"

definition ANALYZER_DEFAULT_RANGES_512 :: "u32 list" where
  "ANALYZER_DEFAULT_RANGES_512 = [10, 20, 40, 80, 160, 512]"

definition ANALYZER_DEFAULT_MFCC_COEFF :: u32 where
  "ANALYZER_DEFAULT_MFCC_COEFF = 13"

section \<open>Configuration and engine state (SoundAnalyzer.h)\<close>

text \<open>\<open>struct AnalyzerConfig\<close>. The field \<open>ranges\<close> is a pointer: copying the struct
  copies the address, not the array.\<close>

record AnalyzerConfig =
  samplefreq :: u32
  fftlength :: u32
  sensitivity :: flt
  gain :: decibel_t
  roloffpercentile :: flt
  numranges :: u32
  ranges :: addr
  fuzzfactor :: u32
  mfcccoeff :: u32

text \<open>
  What lives outside an \<open>Analyzer\<close> object:
  \<^item> \<open>unsigned_mem\<close>: the arrays of \<open>unsigned\<close> a \<open>ranges\<close> pointer can point to,
    among them the global \<open>DefaultRanges\<close>;
  \<^item> \<open>getConfig_cfg\<close>: the function-local \<open>static AnalyzerConfig cfg\<close> of
    \<open>getConfig\<close> (\<open>None\<close> until its initialiser has run);
  \<^item> the free store: the blocks \<open>new\<close> has handed out and \<open>delete\<close> has not taken
    back (\<open>live\<close>), the next fresh address, and \<open>outcomes\<close>, which says for the
    upcoming requests whether each succeeds (an exhausted list: success).
\<close>

record world =
  unsigned_mem :: "addr \<Rightarrow> u32 list option"
  getConfig_cfg :: "AnalyzerConfig option"
  live :: "addr list"
  next_addr :: addr
  outcomes :: "bool list"

text \<open>The global array \<open>DefaultRanges\<close>, as the address it decays to.\<close>

definition DefaultRanges :: addr where
  "DefaultRanges = 0"

text \<open>\<open>delete\<close> of a block.\<close>

definition delete_block :: "addr \<Rightarrow> world \<Rightarrow> world" where
  "delete_block p w = w\<lparr>live := removeAll p (live w)\<rparr>"

text \<open>
  \<open>class Analyzer\<close>. A pointer member is \<open>None\<close> for \<open>nullptr\<close>. \<open>Mfccs\<close>
  aliases the coefficient array of the \<open>MFCC\<close> object and is represented by that
  object's address. \<open>spectrum_data\<close> and \<open>Signature_data\<close> are the contents of the
  arrays \<open>spectrum\<close> and \<open>Signature\<close> point to; the contents of a fresh array are
  indeterminate in C++, and the model keeps whatever the field held. \<open>Features\<close> is
  the member array of \<open>ANALYZER_NUMFEATURES\<close> floats.
\<close>

record Analyzer =
  Config :: AnalyzerConfig
  initialized :: bool
  signal :: "addr option"
  spectrum :: "addr option"
  FFT :: "addr option"
  mfcc :: "addr option"
  yin :: "addr option"
  Signature :: "addr option"
  Bins :: "addr option"
  Mfccs :: "addr option"
  NumBins :: u32
  Fr :: flt
  SignatureLen :: u32
  NumMfccCoeff :: u32
  spectrum_data :: "flt list"
  Signature_data :: "signature_t list"
  Features :: "flt list"

text \<open>
  How a call ends:
  \<^item> \<open>Returned x\<close>: it returns, with \<open>x\<close>;
  \<^item> \<open>Thrown a w\<close>: a plain \<open>new\<close> whose request fails throws \<open>std::bad_alloc\<close>,
    which nothing in the library catches (where exceptions are disabled the program aborts
    at that point); \<open>a\<close> and \<open>w\<close> are the engine and the world as the throw leaves
    them;
  \<^item> \<open>Undefined\<close>: the behaviour is undefined (an access outside an array).
\<close>

datatype 'a outcome = Undefined | Thrown Analyzer world | Returned 'a

fun and_then :: "'a outcome \<Rightarrow> ('a \<Rightarrow> 'b outcome) \<Rightarrow> 'b outcome" where
  "and_then Undefined k = Undefined"
| "and_then (Thrown a w) k = Thrown a w"
| "and_then (Returned x) k = k x"

text \<open>
  \<open>new T\<close> inside a member function of the engine \<open>a\<close>, the plain \<open>new\<close> of the
  source: a fresh address, or the throw when the request fails. Nothing is handed out by
  a request that fails, and the assignment of the result has not happened when it throws.
\<close>

definition operator_new :: "Analyzer \<Rightarrow> world \<Rightarrow> (addr \<times> world) outcome" where
  "operator_new a w =
     (case outcomes w of
        False # rest \<Rightarrow> Thrown a (w\<lparr>outcomes := rest\<rparr>)
      | _ \<Rightarrow> Returned (next_addr w,
                      w\<lparr>live := next_addr w # live w,
                        next_addr := Suc (next_addr w),
                        outcomes := tl (outcomes w)\<rparr>))"

section \<open>Floating-point operations used by the engine\<close>

text \<open>
  The operations follow IEEE arithmetic on the special values (a NaN operand gives NaN,
  a comparison with NaN is false, \<open>inf - inf\<close> and \<open>0 * inf\<close> are NaN) and are exact
  on finite values. A zero divisor is taken as positive zero.
\<close>

definition flt_of_nat :: "nat \<Rightarrow> flt" where
  "flt_of_nat n = Fin (real n)"

definition flt_of_u32 :: "u32 \<Rightarrow> flt" where
  "flt_of_u32 n = Fin (real (unat n))"

fun fneg :: "flt \<Rightarrow> flt" where
  "fneg (Fin x) = Fin (- x)"
| "fneg PInf = NInf"
| "fneg NInf = PInf"
| "fneg NaN = NaN"

fun fabs :: "flt \<Rightarrow> flt" where
  "fabs (Fin x) = Fin \<bar>x\<bar>"
| "fabs PInf = PInf"
| "fabs NInf = PInf"
| "fabs NaN = NaN"

fun fadd :: "flt \<Rightarrow> flt \<Rightarrow> flt" where
  "fadd (Fin x) (Fin y) = Fin (x + y)"
| "fadd NaN _ = NaN"
| "fadd _ NaN = NaN"
| "fadd PInf NInf = NaN"
| "fadd NInf PInf = NaN"
| "fadd PInf _ = PInf"
| "fadd _ PInf = PInf"
| "fadd NInf _ = NInf"
| "fadd _ NInf = NInf"

definition fsub :: "flt \<Rightarrow> flt \<Rightarrow> flt" where
  "fsub a b = fadd a (fneg b)"

fun fmul :: "flt \<Rightarrow> flt \<Rightarrow> flt" where
  "fmul (Fin x) (Fin y) = Fin (x * y)"
| "fmul NaN _ = NaN"
| "fmul _ NaN = NaN"
| "fmul PInf (Fin y) = (if y = 0 then NaN else if 0 < y then PInf else NInf)"
| "fmul NInf (Fin y) = (if y = 0 then NaN else if 0 < y then NInf else PInf)"
| "fmul (Fin x) PInf = (if x = 0 then NaN else if 0 < x then PInf else NInf)"
| "fmul (Fin x) NInf = (if x = 0 then NaN else if 0 < x then NInf else PInf)"
| "fmul PInf PInf = PInf"
| "fmul PInf NInf = NInf"
| "fmul NInf PInf = NInf"
| "fmul NInf NInf = PInf"

fun fdiv :: "flt \<Rightarrow> flt \<Rightarrow> flt" where
  "fdiv (Fin x) (Fin y) =
     (if y = 0 then (if x = 0 then NaN else if 0 < x then PInf else NInf)
      else Fin (x / y))"
| "fdiv NaN _ = NaN"
| "fdiv _ NaN = NaN"
| "fdiv (Fin x) PInf = Fin 0"
| "fdiv (Fin x) NInf = Fin 0"
| "fdiv PInf (Fin y) = (if 0 \<le> y then PInf else NInf)"
| "fdiv NInf (Fin y) = (if 0 \<le> y then NInf else PInf)"
| "fdiv PInf PInf = NaN"
| "fdiv PInf NInf = NaN"
| "fdiv NInf PInf = NaN"
| "fdiv NInf NInf = NaN"

text \<open>The comparisons \<open><\<close>, \<open>>\<close>, \<open>==\<close> and \<open><=\<close>.\<close>

fun flt_less :: "flt \<Rightarrow> flt \<Rightarrow> bool" where
  "flt_less (Fin x) (Fin y) = (x < y)"
| "flt_less NaN _ = False"
| "flt_less _ NaN = False"
| "flt_less PInf _ = False"
| "flt_less _ NInf = False"
| "flt_less NInf _ = True"
| "flt_less _ PInf = True"

definition flt_greater :: "flt \<Rightarrow> flt \<Rightarrow> bool" where
  "flt_greater a b = flt_less b a"

fun flt_eq :: "flt \<Rightarrow> flt \<Rightarrow> bool" where
  "flt_eq (Fin x) (Fin y) = (x = y)"
| "flt_eq PInf PInf = True"
| "flt_eq NInf NInf = True"
| "flt_eq _ _ = False"

definition flt_le :: "flt \<Rightarrow> flt \<Rightarrow> bool" where
  "flt_le a b = (flt_less a b \<or> flt_eq a b)"

text \<open>\<open>log\<close>, \<open>log10\<close>, \<open>sqrt\<close>, \<open>exp\<close> and \<open>round\<close> of the C library.\<close>

fun flog :: "flt \<Rightarrow> flt" where
  "flog (Fin x) = (if x < 0 then NaN else if x = 0 then NInf else Fin (ln x))"
| "flog PInf = PInf"
| "flog NInf = NaN"
| "flog NaN = NaN"

fun flog10 :: "flt \<Rightarrow> flt" where
  "flog10 (Fin x) = (if x < 0 then NaN else if x = 0 then NInf else Fin (log 10 x))"
| "flog10 PInf = PInf"
| "flog10 NInf = NaN"
| "flog10 NaN = NaN"

fun fsqrt :: "flt \<Rightarrow> flt" where
  "fsqrt (Fin x) = (if x < 0 then NaN else Fin (sqrt x))"
| "fsqrt PInf = PInf"
| "fsqrt NInf = NaN"
| "fsqrt NaN = NaN"

fun fexp :: "flt \<Rightarrow> flt" where
  "fexp (Fin x) = Fin (exp x)"
| "fexp PInf = PInf"
| "fexp NInf = Fin 0"
| "fexp NaN = NaN"

text \<open>\<open>round\<close>: to the nearest integer, halves away from zero.\<close>

fun fround :: "flt \<Rightarrow> flt" where
  "fround (Fin x) = Fin (if 0 \<le> x then of_int \<lfloor>x + 1 / 2\<rfloor> else - of_int \<lfloor>- x + 1 / 2\<rfloor>)"
| "fround PInf = PInf"
| "fround NInf = NInf"
| "fround NaN = NaN"

text \<open>\<open>sq(x)\<close> of Arduino.h is \<open>x * x\<close>; \<open>pow(x, 2)\<close> and \<open>pow(x, 3)\<close> are the
  products too.\<close>

definition sq :: "flt \<Rightarrow> flt" where
  "sq x = fmul x x"

definition fpow2 :: "flt \<Rightarrow> flt" where
  "fpow2 x = fmul x x"

definition fpow3 :: "flt \<Rightarrow> flt" where
  "fpow3 x = fmul (fmul x x) x"

text \<open>
  Conversions to integer types truncate towards zero; they are undefined (\<open>None\<close>)
  where the truncated value is not a value of the target type, and for infinities and
  NaN. \<open>int\<close> and \<open>long\<close> have 32 bits.
\<close>

fun ftrunc :: "flt \<Rightarrow> int option" where
  "ftrunc (Fin x) = Some (if 0 \<le> x then \<lfloor>x\<rfloor> else - \<lfloor>- x\<rfloor>)"
| "ftrunc _ = None"

definition flt_to_int :: "flt \<Rightarrow> int option" where
  "flt_to_int x =
     (case ftrunc x of None \<Rightarrow> None
      | Some t \<Rightarrow> if - (2 ^ 31) \<le> t \<and> t < 2 ^ 31 then Some t else None)"

definition flt_to_u16 :: "flt \<Rightarrow> u16 option" where
  "flt_to_u16 x =
     (case ftrunc x of None \<Rightarrow> None
      | Some t \<Rightarrow> if 0 \<le> t \<and> t < 2 ^ 16 then Some (word_of_int t) else None)"

subsection \<open>Rounding\<close>

text \<open>
  The operations above give the exact result. The machine's \<open>float\<close> and \<open>double\<close>
  operations round it: \<open>rnd32\<close> and \<open>rnd64\<close> send an exact finite result to the
  value of the format that the operation delivers (a finite one, or an infinity on
  overflow). The call \<open>log(fabs(x) + 1)\<close> of the fingerprint generator resolves to the
  \<open>float\<close> overloads of \<open><cmath>\<close> or to the \<open>double\<close> functions of \<open><math.h>\<close>,
  whichever the platform's headers put in scope: \<open>rnd_log\<close> rounds the sum to the format
  of that call, and \<open>lib_log\<close> is the library's logarithm of the rounded sum as it
  arrives in a \<open>float\<close> variable. All four belong to the platform and are parameters of
  the fingerprint generator and of the pitch estimator: what is proved of these holds for
  every rounding. \<open>exact_arith\<close> is the arithmetic that does not round. The statistics
  and the level functions are given with the exact operations.
\<close>

record arith =
  rnd32 :: "real \<Rightarrow> flt"
  rnd64 :: "real \<Rightarrow> flt"
  rnd_log :: "real \<Rightarrow> flt"
  lib_log :: "flt \<Rightarrow> flt"

definition exact_arith :: arith where
  "exact_arith = \<lparr> rnd32 = Fin, rnd64 = Fin, rnd_log = Fin, lib_log = flog \<rparr>"

fun rounded :: "(real \<Rightarrow> flt) \<Rightarrow> flt \<Rightarrow> flt" where
  "rounded r (Fin x) = r x"
| "rounded r PInf = PInf"
| "rounded r NInf = NInf"
| "rounded r NaN = NaN"

definition add32 :: "arith \<Rightarrow> flt \<Rightarrow> flt \<Rightarrow> flt" where
  "add32 ar a b = rounded (rnd32 ar) (fadd a b)"

definition sub32 :: "arith \<Rightarrow> flt \<Rightarrow> flt \<Rightarrow> flt" where
  "sub32 ar a b = rounded (rnd32 ar) (fsub a b)"

definition mul32 :: "arith \<Rightarrow> flt \<Rightarrow> flt \<Rightarrow> flt" where
  "mul32 ar a b = rounded (rnd32 ar) (fmul a b)"

definition div32 :: "arith \<Rightarrow> flt \<Rightarrow> flt \<Rightarrow> flt" where
  "div32 ar a b = rounded (rnd32 ar) (fdiv a b)"

definition add64 :: "arith \<Rightarrow> flt \<Rightarrow> flt \<Rightarrow> flt" where
  "add64 ar a b = rounded (rnd64 ar) (fadd a b)"

definition mul64 :: "arith \<Rightarrow> flt \<Rightarrow> flt \<Rightarrow> flt" where
  "mul64 ar a b = rounded (rnd64 ar) (fmul a b)"

definition div64 :: "arith \<Rightarrow> flt \<Rightarrow> flt \<Rightarrow> flt" where
  "div64 ar a b = rounded (rnd64 ar) (fdiv a b)"

text \<open>The conversion of a \<open>double\<close> to \<open>float\<close>, and of an integer to \<open>float\<close>.\<close>

definition to32 :: "arith \<Rightarrow> flt \<Rightarrow> flt" where
  "to32 ar v = rounded (rnd32 ar) v"

definition nat_to32 :: "arith \<Rightarrow> nat \<Rightarrow> flt" where
  "nat_to32 ar n = rnd32 ar (real n)"

definition int_to32 :: "arith \<Rightarrow> int \<Rightarrow> flt" where
  "int_to32 ar n = rnd32 ar (real_of_int n)"

section \<open>Lifecycle (Analyzer.cpp)\<close>

text \<open>\<open>defaultConfig()\<close>: the function-local static \<open>DefaultConfig\<close>; its \<open>ranges\<close>
  member is the address of the global \<open>DefaultRanges\<close>.\<close>

definition defaultConfig :: AnalyzerConfig where
  "defaultConfig =
     \<lparr> samplefreq = ANALYZER_DEFAULT_SAMPLEFREQ,
       fftlength = ANALYZER_DEFAULT_FFTLENGTH,
       sensitivity = ANALYZER_DEFAULT_MICSENS,
       gain = ANALYZER_DEFAULT_GAIN,
       roloffpercentile = ANALYZER_DEFAULT_ROLLOFF_PERCENTILE,
       numranges = ANALYZER_DEFAULT_NUMRANGES,
       ranges = DefaultRanges,
       fuzzfactor = ANALYZER_DEFAULT_FUZZFACTOR,
       mfcccoeff = ANALYZER_DEFAULT_MFCC_COEFF \<rparr>"

text \<open>\<open>End()\<close>: every non-null pointer is deleted and nulled, in the source's order.\<close>

definition End :: "Analyzer \<Rightarrow> world \<Rightarrow> Analyzer \<times> world" where
  "End a w =
     (let (a, w) = (case signal a of Some p \<Rightarrow> (a\<lparr>signal := None\<rparr>, delete_block p w)
                    | None \<Rightarrow> (a, w));
          (a, w) = (case spectrum a of Some p \<Rightarrow> (a\<lparr>spectrum := None\<rparr>, delete_block p w)
                    | None \<Rightarrow> (a, w));
          (a, w) = (case Signature a of Some p \<Rightarrow> (a\<lparr>Signature := None\<rparr>, delete_block p w)
                    | None \<Rightarrow> (a, w));
          (a, w) = (case FFT a of Some p \<Rightarrow> (a\<lparr>FFT := None\<rparr>, delete_block p w)
                    | None \<Rightarrow> (a, w));
          (a, w) = (case mfcc a of Some p \<Rightarrow> (a\<lparr>mfcc := None\<rparr>, delete_block p w)
                    | None \<Rightarrow> (a, w));
          (a, w) = (case yin a of Some p \<Rightarrow> (a\<lparr>yin := None\<rparr>, delete_block p w)
                    | None \<Rightarrow> (a, w))
      in (a\<lparr>initialized := False\<rparr>, w))"

text \<open>
  \<open>Begin()\<close>. The three steps after the first allocations are functions of their own
  so that each reads like its \<open>if\<close> block. Each \<open>new\<close> of \<open>Begin\<close> is one request;
  the arrays the constructors of \<open>MFCC\<close> and \<open>YIN\<close> allocate for themselves are part
  of that request. A request that fails ends the call at that \<open>new\<close> with the throw;
  \<open>memok\<close> is computed from the pointers as the source does.
\<close>

definition Begin_mfcc :: "bool \<Rightarrow> Analyzer \<Rightarrow> world \<Rightarrow> (bool \<times> Analyzer \<times> world) outcome" where
  "Begin_mfcc memok a w =
     (if 0 < mfcccoeff (Config a) \<and> memok then
        and_then (operator_new a w) (\<lambda>(p, w).
          let a = a\<lparr>mfcc := Some p\<rparr>;
              a = a\<lparr>Mfccs := mfcc a\<rparr>;
              memok = (mfcc a \<noteq> None)
          in Returned (memok, a, w))
      else Returned (memok, a, w))"

definition Begin_Signature :: "bool \<Rightarrow> Analyzer \<Rightarrow> world \<Rightarrow> (bool \<times> Analyzer \<times> world) outcome" where
  "Begin_Signature memok a w =
     (if 0 < numranges (Config a) \<and> memok then
        and_then (operator_new a w) (\<lambda>(p, w).
          let a = a\<lparr>Signature := Some p\<rparr>;
              memok = (Signature a \<noteq> None)
          in Returned (memok, a, w))
      else Returned (memok, a, w))"

definition Begin_yin :: "bool \<Rightarrow> Analyzer \<Rightarrow> world \<Rightarrow> (bool \<times> Analyzer \<times> world) outcome" where
  "Begin_yin memok a w =
     (if memok then
        and_then (operator_new a w) (\<lambda>(p, w).
          let a = a\<lparr>yin := Some p\<rparr>;
              memok = (yin a \<noteq> None)
          in Returned (memok, a, w))
      else Returned (memok, a, w))"

definition Begin :: "Analyzer \<Rightarrow> world \<Rightarrow> (bool \<times> Analyzer \<times> world) outcome" where
  "Begin a w =
     (if initialized a then Returned (True, a, w)
      else
        (let a = a\<lparr>Fr := fdiv (flt_of_u32 (samplefreq (Config a))) (flt_of_u32 (fftlength (Config a))),
                   NumBins := fftlength (Config a) div 2\<rparr>
         in and_then (operator_new a w) (\<lambda>(p1, w). let a = a\<lparr>signal := Some p1\<rparr> in
            and_then (operator_new a w) (\<lambda>(p2, w). let a = a\<lparr>spectrum := Some p2\<rparr> in
            and_then (operator_new a w) (\<lambda>(p3, w).
              let a = a\<lparr>FFT := Some p3\<rparr>;
                  memok = (signal a \<noteq> None \<or> spectrum a \<noteq> None \<or> FFT a \<noteq> None);
                  a = a\<lparr>Bins := spectrum a\<rparr>
              in and_then (Begin_mfcc memok a w) (\<lambda>(memok, a, w).
                 and_then (Begin_Signature memok a w) (\<lambda>(memok, a, w).
                 and_then (Begin_yin memok a w) (\<lambda>(memok, a, w).
                   if \<not> memok then Returned (False, a, w)
                   else Returned (True, a\<lparr>initialized := True\<rparr>, w)))))))))"

text \<open>
  The rescaling loop of \<open>setConfig\<close>: \<open>r = r * Config.fftlength / 512\<close> on every index
  below \<open>numranges\<close>, in 32-bit unsigned arithmetic, written back in place. The index
  cannot wrap (it stays below \<open>numranges\<close>), so it is a \<open>nat\<close>. A write past the end of
  the array is undefined: \<open>None\<close>.
\<close>

definition rescale_entry :: "u32 \<Rightarrow> u32 \<Rightarrow> u32" where
  "rescale_entry L r = r * L div ANALYZER_DEFAULT_FFTLENGTH"

definition rescale_ranges :: "u32 \<Rightarrow> u32 \<Rightarrow> u32 list \<Rightarrow> u32 list option" where
  "rescale_ranges n L arr =
     (if unat n \<le> length arr
      then Some (fold (\<lambda>i arr. arr[i := rescale_entry L (arr ! i)]) [0..<unat n] arr)
      else None)"

text \<open>\<open>setConfig\<close>, in the order of its statements: the release of the buffers when
  a sizing parameter changed, the copy of the configuration with the derived members,
  the rescaling of the default ranges, and \<open>Begin()\<close>, whose result is dropped
  (\<open>setConfig\<close> returns \<open>void\<close>); an exception of \<open>Begin\<close> passes through. The
  rescaling stays an \<open>option\<close>: \<open>None\<close> is the write outside the array.\<close>

definition setConfig_release :: "AnalyzerConfig \<Rightarrow> Analyzer \<Rightarrow> world \<Rightarrow> Analyzer \<times> world" where
  "setConfig_release newCfg a w =
     (if initialized a \<and>
         (fftlength newCfg \<noteq> fftlength (Config a) \<or> samplefreq newCfg \<noteq> samplefreq (Config a) \<or>
          numranges newCfg \<noteq> numranges (Config a) \<or> mfcccoeff newCfg \<noteq> mfcccoeff (Config a))
      then End a w else (a, w))"

definition setConfig_store :: "AnalyzerConfig \<Rightarrow> Analyzer \<Rightarrow> Analyzer" where
  "setConfig_store newCfg a =
     (let a = a\<lparr>Config := newCfg\<rparr>
      in a\<lparr>Fr := fdiv (flt_of_u32 (samplefreq (Config a))) (flt_of_u32 (fftlength (Config a))),
           NumBins := fftlength (Config a) div 2,
           SignatureLen := numranges (Config a),
           NumMfccCoeff := mfcccoeff (Config a)\<rparr>)"

definition setConfig_rescale :: "Analyzer \<Rightarrow> world \<Rightarrow> (Analyzer \<times> world) option" where
  "setConfig_rescale a w =
     (if fftlength (Config a) \<noteq> ANALYZER_DEFAULT_FFTLENGTH \<and> ranges (Config a) = DefaultRanges
      then (case unsigned_mem w (ranges (Config a)) of None \<Rightarrow> None
            | Some arr \<Rightarrow>
                (case rescale_ranges (numranges (Config a)) (fftlength (Config a)) arr of
                   None \<Rightarrow> None
                 | Some arr' \<Rightarrow>
                     Some (a\<lparr>Config := (Config a)\<lparr>fuzzfactor :=
                               ANALYZER_DEFAULT_FUZZFACTOR * fftlength (Config a)
                                 div ANALYZER_DEFAULT_FFTLENGTH\<rparr>\<rparr>,
                           w\<lparr>unsigned_mem := (unsigned_mem w)(ranges (Config a) \<mapsto> arr')\<rparr>)))
      else Some (a, w))"

definition setConfig :: "AnalyzerConfig \<Rightarrow> Analyzer \<Rightarrow> world \<Rightarrow> (Analyzer \<times> world) outcome" where
  "setConfig newCfg a w =
     (let (a, w) = setConfig_release newCfg a w;
          a = setConfig_store newCfg a
      in case setConfig_rescale a w of None \<Rightarrow> Undefined
         | Some (a, w) \<Rightarrow> and_then (Begin a w) (\<lambda>(ok, a, w). Returned (a, w)))"


text \<open>A run of \<open>setConfig\<close> calls on one engine; it goes on as long as they return.\<close>

fun setConfigs :: "AnalyzerConfig list \<Rightarrow> Analyzer \<Rightarrow> world \<Rightarrow> (Analyzer \<times> world) outcome" where
  "setConfigs [] a w = Returned (a, w)"
| "setConfigs (c # cs) a w = and_then (setConfig c a w) (\<lambda>(a', w'). setConfigs cs a' w')"

text \<open>
  An object before its constructor body runs: the members with an initialiser in the
  class are null/false; the others are indeterminate in C++ and are given fixed values
  here (\<open>setConfig\<close> overwrites \<open>Config\<close> and the derived members before reading them).
  The world at program start: \<open>DefaultRanges\<close> holds its initialiser.
\<close>

definition blank_Analyzer :: Analyzer where
  "blank_Analyzer =
     \<lparr> Config = \<lparr> samplefreq = 0, fftlength = 0, sensitivity = Fin 0, gain = 0,
                  roloffpercentile = Fin 0, numranges = 0, ranges = 1, fuzzfactor = 0,
                  mfcccoeff = 0 \<rparr>,
       initialized = False, signal = None, spectrum = None, FFT = None, mfcc = None,
       yin = None, Signature = None, Bins = None, Mfccs = None, NumBins = 0, Fr = Fin 0,
       SignatureLen = 0, NumMfccCoeff = 0, spectrum_data = [], Signature_data = [],
       Features = replicate 10 (Fin 0) \<rparr>"

definition start_world :: world where
  "start_world =
     \<lparr> unsigned_mem = Map.empty(DefaultRanges \<mapsto> ANALYZER_DEFAULT_RANGES_256),
       getConfig_cfg = None, live = [], next_addr = 100, outcomes = [] \<rparr>"

section \<open>Fingerprint hash (SoundAnalyzer.h, Analyzer.cpp)\<close>

text \<open>
  \<open>signatureHash(sig, nr, off)\<close>, the recursive \<open>constexpr\<close> member:
  \<^verbatim>\<open>off == nr ? 5381 : (signatureHash(sig, nr, off+1)*33) ^ (sig[off] - (sig[off] % Config.fuzzfactor))\<close>
  \<open>sig[off]\<close> is an \<open>unsigned short\<close>, promoted and then converted to the 32-bit
  \<open>unsigned\<close> of \<open>fuzzfactor\<close>; the product and the exclusive or are 32-bit
  \<open>unsigned long\<close>. The result is \<open>None\<close> where the source is undefined: a read past
  the end of the array, and a remainder by a zero fuzz factor.
\<close>

function signatureHash :: "u32 \<Rightarrow> signature_t list \<Rightarrow> nat \<Rightarrow> nat \<Rightarrow> hash_t option" where
  "signatureHash fuzz sig nr off =
     (if off = nr then Some 5381
      else if length sig \<le> off then None
      else (case signatureHash fuzz sig nr (off + 1) of
              None \<Rightarrow> None
            | Some h \<Rightarrow>
                if fuzz = 0 then None
                else Some ((h * 33) XOR (ucast (sig ! off) - (ucast (sig ! off) mod fuzz)))))"
  by pat_completeness auto
termination
  by (relation "measure (\<lambda>(fuzz, sig, nr, off). length sig - off)") auto

text \<open>\<open>getSignatureHash(Sig)\<close>: the engine's own signature when \<open>Sig\<close> is null.\<close>

definition getSignatureHash :: "Analyzer \<Rightarrow> signature_t list option \<Rightarrow> hash_t option" where
  "getSignatureHash a Sig =
     (let S = (case Sig of None \<Rightarrow> Signature_data a | Some s \<Rightarrow> s)
      in signatureHash (fuzzfactor (Config a)) S (unat (SignatureLen a)) 0)"

text \<open>
  The hash as the specification words it: the value quantized by the fuzz tolerance,
  \<open>value - (value mod fuzzFactor)\<close>, and a polynomial accumulation seeded with 5381
  that multiplies the running hash by 33 and XORs the quantized value in, taking the
  elements from right to left.
\<close>

definition fuzz_quantized :: "u32 \<Rightarrow> signature_t \<Rightarrow> u32" where
  "fuzz_quantized fuzzFactor v = ucast v - (ucast v mod fuzzFactor)"

definition spec_hash :: "u32 \<Rightarrow> signature_t list \<Rightarrow> hash_t" where
  "spec_hash fuzzFactor sig = foldr (\<lambda>v h. (h * 33) XOR fuzz_quantized fuzzFactor v) sig 5381"

section \<open>Time-domain level (Analyzer.cpp)\<close>

text \<open>
  \<open>rms(Signal, siglen)\<close>. The samples are given after their conversion to \<open>float\<close>.
  A signal shorter than the length read is a read past its end: \<open>None\<close>.
\<close>

definition rms :: "Analyzer \<Rightarrow> flt list \<Rightarrow> u32 \<Rightarrow> flt option" where
  "rms a Signal siglen =
     (let len = (if siglen = 0 then fftlength (Config a) else siglen) in
      if length Signal < unat len then None
      else
        (let Rms = fold (\<lambda>i Rms. let amp = fabs (Signal ! i) in fadd Rms (sq amp))
                     [0..<unat len] (Fin 0);
             Rms = fdiv Rms (flt_of_u32 len)
         in Some (fsqrt Rms)))"

text \<open>
  \<open>decibelSPL(Signal, siglen)\<close>: \<open>20 * log10(vRms / Config.sensitivity)\<close>, minus the
  gain, plus 94, rounded and converted to \<open>decibel_t\<close>. There is no test of the
  sensitivity.
\<close>

definition decibelSPL :: "Analyzer \<Rightarrow> flt list \<Rightarrow> u32 \<Rightarrow> decibel_t option" where
  "decibelSPL a Signal siglen =
     (case rms a Signal siglen of None \<Rightarrow> None
      | Some vRms \<Rightarrow>
          (let dBv = fmul (Fin 20) (flog10 (fdiv vRms (sensitivity (Config a))));
               dB = fadd (fsub dBv (Fin (real (unat (gain (Config a)))))) (Fin 94)
           in flt_to_u16 (fround dB)))"

section \<open>Fingerprint (Analyzer.cpp)\<close>

text \<open>What \<open>getSignature\<close> and \<open>getFeatures\<close> can read through the member
  \<open>spectrum\<close>: nothing through a null pointer.\<close>

definition spectrum_contents :: "Analyzer \<Rightarrow> flt list" where
  "spectrum_contents a = (case spectrum a of None \<Rightarrow> [] | Some p \<Rightarrow> spectrum_data a)"

text \<open>\<open>frequency(bin)\<close>: \<open>bin * Fr\<close>, exact and as the machine computes it (the
  bin is converted to \<open>float\<close>, the product is a \<open>float\<close>).\<close>

definition frequency :: "Analyzer \<Rightarrow> nat \<Rightarrow> flt" where
  "frequency a bin = fmul (flt_of_nat bin) (Fr a)"

definition frequency32 :: "arith \<Rightarrow> Analyzer \<Rightarrow> nat \<Rightarrow> flt" where
  "frequency32 ar a bin = mul32 ar (nat_to32 ar bin) (Fr a)"

text \<open>
  The lambda \<open>rangeIndex\<close> of \<open>getSignature\<close>: the first \<open>r\<close> with \<open>ranges[r] > idx\<close>,
  and \<open>numranges - 1\<close> when the loop runs out. \<open>rangeIndex_from\<close> is the loop from \<open>r\<close> on.
\<close>

function rangeIndex_from :: "u32 list \<Rightarrow> nat \<Rightarrow> nat \<Rightarrow> nat \<Rightarrow> nat" where
  "rangeIndex_from rs nranges idx r =
     (if r < nranges
      then (if idx < unat (rs ! r) then r else rangeIndex_from rs nranges idx (r + 1))
      else nranges - 1)"
  by pat_completeness auto
termination
  by (relation "measure (\<lambda>(rs, nranges, idx, r). nranges - r)") auto

definition rangeIndex :: "u32 list \<Rightarrow> nat \<Rightarrow> nat \<Rightarrow> nat" where
  "rangeIndex rs nranges idx = rangeIndex_from rs nranges idx 0"

text \<open>The log-compressed magnitude of a bin, \<open>log(fabs(bins[i]) + 1)\<close>: the absolute
  value is exact, the sum is rounded, the logarithm is the library's.\<close>

definition log_magnitude :: "arith \<Rightarrow> flt \<Rightarrow> flt" where
  "log_magnitude ar x = lib_log ar (rounded (rnd_log ar) (fadd (fabs x) (Fin 1)))"

text \<open>
  One round of the scan \<open>for (i=1; i < NumBins; i++)\<close> on the pair of arrays
  (\<open>Signature\<close>, \<open>mags\<close>). The conversion \<open>int(frequency(i))\<close> can be undefined; the
  cast to \<open>signature_t\<close> keeps the low 16 bits.
\<close>

definition getSignature_scan ::
  "arith \<Rightarrow> Analyzer \<Rightarrow> u32 list \<Rightarrow> nat \<Rightarrow> flt list \<Rightarrow> nat \<Rightarrow>
   (signature_t list \<times> flt list) option \<Rightarrow> (signature_t list \<times> flt list) option" where
  "getSignature_scan ar a rs nranges bins i st =
     (case st of None \<Rightarrow> None
      | Some (Sig, mags) \<Rightarrow>
          (let r = rangeIndex rs nranges i;
               mag = log_magnitude ar (bins ! i)
           in if flt_greater mag (mags ! r)
              then (case flt_to_int (frequency32 ar a i) of None \<Rightarrow> None
                    | Some f \<Rightarrow> Some (Sig[r := word_of_int f], mags[r := mag]))
              else Some (Sig, mags)))"

text \<open>
  \<open>avg\<close>: \<open>for (i=0, avg=0; i<numranges; i++) avg += mags[i];\<close> adds in \<open>float\<close>,
  rounding at every step; \<open>avg = (avg * 1.0) / i\<close> multiplies and divides in \<open>double\<close>
  (the count converts exactly) and stores the quotient in the \<open>float\<close> \<open>avg\<close>.
\<close>

definition mags_avg :: "arith \<Rightarrow> flt list \<Rightarrow> nat \<Rightarrow> flt" where
  "mags_avg ar mags nranges =
     to32 ar
       (div64 ar
          (mul64 ar (fold (\<lambda>i avg. add32 ar avg (mags ! i)) [0..<nranges] (Fin 0)) (Fin 1))
          (flt_of_nat nranges))"

text \<open>The last loop: \<open>if (mags[i] < avg) Signature[i] = 0\<close>.\<close>

definition zero_below_avg :: "flt list \<Rightarrow> flt \<Rightarrow> nat \<Rightarrow> signature_t list \<Rightarrow> signature_t list" where
  "zero_below_avg mags avg nranges Sig =
     fold (\<lambda>i Sig. if flt_less (mags ! i) avg then Sig[i := 0] else Sig) [0..<nranges] Sig"

text \<open>
  \<open>getSignature(Spectrum, len)\<close>. The outer \<open>None\<close> is undefined behaviour (a null
  \<open>Signature\<close> or \<open>ranges\<close>, an array too short for the indices read, an undefined
  conversion); the local \<open>numranges\<close> is \<open>nranges\<close>, the local \<open>NumBins\<close> is \<open>nbins\<close>; the inner \<open>None\<close> is the null pointer returned when \<open>numranges\<close> is 0,
  the inner \<open>Some\<close> is \<open>Signature\<close> with its contents. \<open>ranges\<close> is read through the
  pointer of the configuration. \<open>Signature\<close> has \<open>numranges\<close> entries (\<open>Begin\<close>).
\<close>

definition getSignature ::
  "arith \<Rightarrow> Analyzer \<Rightarrow> world \<Rightarrow> flt list option \<Rightarrow> u32 \<Rightarrow>
   (signature_t list option \<times> Analyzer) option" where
  "getSignature ar a w Spectrum len =
     (let nranges = unat (numranges (Config a)) in
      if nranges = 0 then Some (None, a)
      else
        (let bins = (case Spectrum of Some sp \<Rightarrow> sp | None \<Rightarrow> spectrum_contents a);
             nbins = (if len = 0 then unat (NumBins a) else unat len)
         in case unsigned_mem w (ranges (Config a)) of None \<Rightarrow> None
            | Some rs \<Rightarrow>
                if Signature a = None \<or> length rs < nranges \<or> length bins < nbins then None
                else
                  (case fold (getSignature_scan ar a rs nranges bins) [1..<nbins]
                          (Some (replicate nranges 0, replicate nranges (Fin 0))) of
                     None \<Rightarrow> None
                   | Some (Sig, mags) \<Rightarrow>
                       (let avg = mags_avg ar mags nranges;
                            Sig = zero_below_avg mags avg nranges Sig
                        in Some (Some Sig, a\<lparr>Signature_data := Sig\<rparr>)))))"


section \<open>Spectral statistics (Analyzer.cpp)\<close>

datatype SpectrumFeature =
  Fpeakfreq | Fpeakmag | Favgmag | Fspread | Fskewness | Fcentroid | Fflatness | Fcrest |
  Fkurtosis | Frolloff

fun feature_index :: "SpectrumFeature \<Rightarrow> nat" where
  "feature_index Fpeakfreq = 0"
| "feature_index Fpeakmag = 1"
| "feature_index Favgmag = 2"
| "feature_index Fspread = 3"
| "feature_index Fskewness = 4"
| "feature_index Fcentroid = 5"
| "feature_index Fflatness = 6"
| "feature_index Fcrest = 7"
| "feature_index Fkurtosis = 8"
| "feature_index Frolloff = 9"

definition ANALYZER_NUMFEATURES :: nat where
  "ANALYZER_NUMFEATURES = 10"

text \<open>The locals of the first loop of \<open>getFeatures\<close>.\<close>

record features_sums =
  sumAmplitudes :: flt
  sumWeightedAmplitudes :: flt
  peakFreq :: flt
  peakMag :: flt
  sumfVal :: flt
  logSumfVal :: flt
  sumcVal :: flt
  maxcVal :: flt

definition features_sums_init :: features_sums where
  "features_sums_init =
     \<lparr> sumAmplitudes = Fin 0, sumWeightedAmplitudes = Fin 0, peakFreq = Fin 0, peakMag = Fin 0,
       sumfVal = Fin 0, logSumfVal = Fin 0, sumcVal = Fin 0, maxcVal = Fin 0 \<rparr>"

definition features_sums_step :: "Analyzer \<Rightarrow> flt list \<Rightarrow> nat \<Rightarrow> features_sums \<Rightarrow> features_sums" where
  "features_sums_step a bins i s =
     (let Mag = bins ! i;
          s = s\<lparr>sumAmplitudes := fadd (sumAmplitudes s) Mag,
                sumWeightedAmplitudes := fadd (sumWeightedAmplitudes s) (fmul Mag (flt_of_nat i))\<rparr>;
          f = fadd (Fin 1) Mag;
          s = s\<lparr>logSumfVal := fadd (logSumfVal s) (flog f), sumfVal := fadd (sumfVal s) f\<rparr>;
          c = sq Mag;
          s = s\<lparr>sumcVal := fadd (sumcVal s) c\<rparr>;
          s = (if flt_greater c (maxcVal s) then s\<lparr>maxcVal := c\<rparr> else s)
      in if flt_greater Mag (peakMag s) then s\<lparr>peakMag := Mag, peakFreq := frequency a i\<rparr> else s)"

text \<open>The locals of the second loop.\<close>

record features_moments =
  moment2 :: flt
  moment4 :: flt
  spread_sum :: flt
  skewness_sum :: flt
  rolloff :: flt
  roloff_sum :: flt

definition features_moments_init :: features_moments where
  "features_moments_init =
     \<lparr> moment2 = Fin 0, moment4 = Fin 0, spread_sum = Fin 0, skewness_sum = Fin 0,
       rolloff = Fin 0, roloff_sum = Fin 0 \<rparr>"

definition features_moments_step ::
  "flt list \<Rightarrow> nat \<Rightarrow> flt \<Rightarrow> flt \<Rightarrow> flt \<Rightarrow> nat \<Rightarrow> features_moments \<Rightarrow> features_moments" where
  "features_moments_step bins nbins centroid meanVal rolloff_threshold i m =
     (let Mag = bins ! i;
          m = m\<lparr>spread_sum := fadd (spread_sum m) (fmul (fpow2 (fsub (flt_of_nat i) centroid)) Mag),
                skewness_sum := fadd (skewness_sum m) (fmul (fpow3 (fsub (flt_of_nat i) centroid)) Mag)\<rparr>;
          m = (if flt_eq (rolloff m) (Fin 0)
               then (if flt_greater (roloff_sum m) rolloff_threshold
                     then m\<lparr>rolloff := fdiv (flt_of_nat i) (flt_of_nat nbins)\<rparr>
                     else m\<lparr>roloff_sum := fadd (roloff_sum m) Mag\<rparr>)
               else m);
          difference = fsub Mag meanVal;
          squaredDifference = sq difference
      in m\<lparr>moment2 := fadd (moment2 m) squaredDifference,
           moment4 := fadd (moment4 m) (sq squaredDifference)\<rparr>)"

text \<open>
  \<open>getFeatures(Spectrum, len)\<close>: both loops run over the bins \<open>1 .. NumBins - 1\<close> (the local \<open>NumBins\<close> is \<open>nbins\<close> here); the
  ten features are written into \<open>Features\<close>, which is returned. \<open>None\<close>: the spectrum
  has fewer than \<open>NumBins\<close> entries.
\<close>

definition getFeatures :: "Analyzer \<Rightarrow> flt list option \<Rightarrow> u32 \<Rightarrow> (flt list \<times> Analyzer) option" where
  "getFeatures a Spectrum len =
     (let bins = (case Spectrum of Some sp \<Rightarrow> sp | None \<Rightarrow> spectrum_contents a);
          nbins = (if len = 0 then unat (NumBins a) else unat len)
      in if length bins < nbins then None
         else
           (let s = fold (features_sums_step a bins) [1..<nbins] features_sums_init;
                sumfVal' = fdiv (sumfVal s) (flt_of_nat nbins);
                logSumfVal' = fdiv (logSumfVal s) (flt_of_nat nbins);
                meanVal = fdiv (sumAmplitudes s) (flt_of_nat nbins);
                meancVal = fdiv (sumcVal s) (flt_of_nat nbins);
                F = Features a;
                F = F[feature_index Fpeakfreq := peakFreq s];
                F = F[feature_index Fpeakmag := peakMag s];
                F = F[feature_index Favgmag := meanVal];
                centroid = (if flt_greater (sumAmplitudes s) (Fin 0)
                            then fdiv (sumWeightedAmplitudes s) (sumAmplitudes s) else Fin 0);
                F = F[feature_index Fcentroid := centroid];
                F = F[feature_index Fflatness :=
                        (if flt_greater sumfVal' (Fin 0) then fdiv (fexp logSumfVal') sumfVal' else Fin 0)];
                F = F[feature_index Fcrest :=
                        (if flt_greater (sumcVal s) (Fin 0) then fdiv (maxcVal s) meancVal else Fin 1)];
                rolloff_threshold = fmul (roloffpercentile (Config a)) (sumAmplitudes s);
                m = fold (features_moments_step bins nbins centroid meanVal rolloff_threshold)
                      [1..<nbins] features_moments_init;
                F = F[feature_index Frolloff := rolloff m];
                spread = fsqrt (fdiv (spread_sum m) (sumAmplitudes s));
                F = F[feature_index Fspread := spread];
                F = F[feature_index Fskewness :=
                        fdiv (fdiv (skewness_sum m) (sumAmplitudes s)) (fpow3 spread)];
                moment2' = fdiv (moment2 m) (flt_of_nat nbins);
                moment4' = fdiv (moment4 m) (flt_of_nat nbins);
                F = F[feature_index Fkurtosis :=
                        (if flt_eq moment2' (Fin 0) then Fin (- 3)
                         else fsub (fdiv moment4' (sq moment2')) (Fin 3))]
            in Some (F, a\<lparr>Features := F\<rparr>)))"

section \<open>Cepstral coefficients (Analyzer.cpp)\<close>

text \<open>
  \<open>getMfcc(Spectrum, len)\<close> returns the pointer \<open>Mfccs\<close>, or null when \<open>mfcccoeff\<close> is
  0. With \<open>mfcccoeff > 0\<close> it first calls
  \<open>mfcc->calculateMelFrequencyCepstralCoefficients(bins)\<close>, which fills the coefficient
  array inside the \<open>MFCC\<close> object; the model carries the address of that object and not
  its arrays. The outer \<open>None\<close> is the call through a null \<open>mfcc\<close>.
\<close>

definition getMfcc :: "Analyzer \<Rightarrow> flt list option \<Rightarrow> u32 \<Rightarrow> (addr option \<times> Analyzer) option" where
  "getMfcc a Spectrum len =
     (if 0 < mfcccoeff (Config a)
      then (case mfcc a of None \<Rightarrow> None
            | Some m \<Rightarrow> Some (Some m, a\<lparr>Mfccs := Some m\<rparr>))
      else Some (None, a))"

section \<open>Pitch estimation (YIN.h)\<close>

text \<open>\<open>class YIN\<close>. \<open>fs\<close> and \<open>minPeriod\<close> are \<open>int\<close>, \<open>framesz\<close> is a \<open>size_t\<close>;
  \<open>delta\<close> is the array of \<open>framesz/2\<close> floats with its contents. The sampling
  frequency is taken to fit an \<open>int\<close>.\<close>

record YIN =
  prevPeriodEstimate :: flt
  fs :: int
  framesz :: nat
  minPeriod :: int
  delta :: "flt list"

text \<open>
  The arithmetic of the class is on \<open>float\<close>, rounded at every operation, except in
  \<open>parabolicInterpolation\<close>, where the literal \<open>2.\<close> makes the product, the quotient and
  the sum \<open>double\<close>. The literals 1, 2, 200, 1500, 2000 and 100000 are values of the
  format; 0.1 is not and is rounded.
\<close>

text \<open>\<open>setMaxFrequency\<close> and the constructor. \<open>(int)ceil(x)\<close> of a value that is not
  finite is undefined; the model stores 0 for it (\<open>minPeriod\<close> is not read by
  \<open>pitchYin\<close>).\<close>

definition setMaxFrequency :: "arith \<Rightarrow> flt \<Rightarrow> YIN \<Rightarrow> YIN" where
  "setMaxFrequency ar maxFreq y =
     (let maxFreq = (if flt_le maxFreq (Fin 200) then Fin 2000 else maxFreq);
          minPeriodFloating = div32 ar (int_to32 ar (fs y)) maxFreq
      in y\<lparr>minPeriod := (case minPeriodFloating of Fin x \<Rightarrow> \<lceil>x\<rceil> | _ \<Rightarrow> 0)\<rparr>)"

definition YIN_new :: "arith \<Rightarrow> nat \<Rightarrow> nat \<Rightarrow> YIN" where
  "YIN_new ar samplingFrequency len =
     setMaxFrequency ar (Fin 1500)
       \<lparr> prevPeriodEstimate = Fin 1, fs = int samplingFrequency, framesz = len, minPeriod = 0,
         delta = replicate (len div 2) (Fin 0) \<rparr>"

text \<open>\<open>periodToPitch\<close>: \<open>((float)fs) / period\<close>.\<close>

definition periodToPitch :: "arith \<Rightarrow> YIN \<Rightarrow> flt \<Rightarrow> flt" where
  "periodToPitch ar y period = div32 ar (int_to32 ar (fs y)) period"

text \<open>
  \<open>searchForOtherRecentMinima\<close>: the candidates \<open>prevEst - 1\<close>, \<open>prevEst\<close>,
  \<open>prevEst + 1\<close> in this order, the last strict local minimum among them wins, \<open>-1\<close> if
  there is none. \<open>None\<close>: the conversion \<open>(long)round(prevPeriodEstimate)\<close> is
  undefined, or \<open>prevEst - 1\<close> or \<open>prevEst + 1\<close> overflows. \<open>round\<close> is exact.
\<close>

definition recentMinimum_at :: "YIN \<Rightarrow> flt list \<Rightarrow> int \<Rightarrow> int \<Rightarrow> int" where
  "recentMinimum_at y d i newMinima =
     (if 0 < i \<and> i < int (framesz y div 2) - 1
      then (if flt_less (d ! nat i) (d ! nat (i - 1)) \<and> flt_less (d ! nat i) (d ! nat (i + 1))
            then i else newMinima)
      else newMinima)"

definition searchForOtherRecentMinima :: "YIN \<Rightarrow> flt list \<Rightarrow> int option" where
  "searchForOtherRecentMinima y d =
     (case flt_to_int (fround (prevPeriodEstimate y)) of None \<Rightarrow> None
      | Some prevEst \<Rightarrow>
          if prevEst - 1 < - (2 ^ 31) \<or> 2 ^ 31 \<le> prevEst + 1 then None
          else Some (fold (recentMinimum_at y d) [prevEst - 1, prevEst, prevEst + 1] (- 1)))"

text \<open>
  \<open>parabolicInterpolation(period, y1, y2, y3)\<close>:
  \<^verbatim>\<open>((float)period) + (y3 - y1) / (2. * (2 * y2 - y3 - y1))\<close>
  unless the three values are equal. The differences and \<open>2 * y2\<close> are \<open>float\<close>
  operations; the product with \<open>2.\<close>, the quotient and the sum are \<open>double\<close> operations,
  and the result is stored in a \<open>float\<close>.
\<close>

definition parabolicInterpolation :: "arith \<Rightarrow> nat \<Rightarrow> flt \<Rightarrow> flt \<Rightarrow> flt \<Rightarrow> flt" where
  "parabolicInterpolation ar period y1 y2 y3 =
     (if flt_eq y3 y2 \<and> flt_eq y2 y1 then nat_to32 ar period
      else to32 ar
             (add64 ar (nat_to32 ar period)
                (div64 ar (sub32 ar y3 y1)
                   (mul64 ar (Fin 2) (sub32 ar (sub32 ar (mul32 ar (Fin 2) y2) y3) y1)))))"

text \<open>
  \<open>getPeriodCandidate\<close>: the loop from 30 up to \<open>framesz/2 - 1\<close> (exclusive) with its
  \<open>break\<close>; \<open>L\<close> is \<open>framesz/2\<close>, at least 1 where \<open>pitchYin\<close> gets this far. The loop
  returns the first local minimum below the threshold \<open>thresh\<close> (0.1 as a \<open>float\<close>), or
  else the index of the least value seen (\<open>minInd\<close>, 0 if none).
\<close>

function getPeriodCandidate_loop :: "flt \<Rightarrow> flt list \<Rightarrow> nat \<Rightarrow> nat \<Rightarrow> flt \<Rightarrow> nat \<Rightarrow> nat" where
  "getPeriodCandidate_loop thresh d L i minVal minInd =
     (if i < L - 1 then
        (let (minVal, minInd) = (if flt_less (d ! i) minVal then (d ! i, i) else (minVal, minInd))
         in if flt_less (d ! i) thresh \<and>
               flt_less (d ! i) (d ! (i - 1)) \<and> flt_less (d ! i) (d ! (i + 1))
            then i
            else getPeriodCandidate_loop thresh d L (i + 1) minVal minInd)
      else minInd)"
  by pat_completeness auto
termination
  by (relation "measure (\<lambda>(thresh, d, L, i, minVal, minInd). L - 1 - i)") auto

definition getPeriodCandidate :: "arith \<Rightarrow> YIN \<Rightarrow> flt list \<Rightarrow> nat" where
  "getPeriodCandidate ar y d =
     getPeriodCandidate_loop (rnd32 ar (1 / 10)) d (framesz y div 2) 30 (Fin 100000) 0"

text \<open>
  \<open>cumulativeMeanNormalisedDifferenceFunction\<close>: for every lag \<open>tau\<close> below
  \<open>L = framesz/2\<close> the sum of the squared differences over the first half of the frame,
  normalised by the running sum when that is positive (\<open>tau\<close> is converted to
  \<open>float\<close>); then \<open>delta[0] = 1\<close>.
\<close>

definition difference_sum :: "arith \<Rightarrow> flt list \<Rightarrow> nat \<Rightarrow> nat \<Rightarrow> flt" where
  "difference_sum ar frame L tau =
     fold (\<lambda>j acc. let diff = sub32 ar (frame ! j) (frame ! (j + tau))
                    in add32 ar acc (mul32 ar diff diff))
       [0..<L] (Fin 0)"

definition cmndf_step ::
  "arith \<Rightarrow> flt list \<Rightarrow> nat \<Rightarrow> nat \<Rightarrow> flt list \<times> flt \<Rightarrow> flt list \<times> flt" where
  "cmndf_step ar frame L tau st =
     (let (d, cumulativeSum) = st;
          v = difference_sum ar frame L tau;
          cumulativeSum = add32 ar cumulativeSum v;
          v = (if flt_greater cumulativeSum (Fin 0)
               then div32 ar (mul32 ar v (nat_to32 ar tau)) cumulativeSum else v)
      in (d[tau := v], cumulativeSum))"

definition cumulativeMeanNormalisedDifferenceFunction :: "arith \<Rightarrow> YIN \<Rightarrow> flt list \<Rightarrow> flt list" where
  "cumulativeMeanNormalisedDifferenceFunction ar y frame =
     (let L = framesz y div 2;
          (d, cumulativeSum) = fold (cmndf_step ar frame L) [0..<L] (delta y, Fin 0)
      in d[0 := Fin 1])"

text \<open>
  \<open>pitchYin(frame)\<close>: the estimated pitch and the object with the new \<open>delta\<close> and
  \<open>prevPeriodEstimate\<close>. \<open>None\<close>: the frame has fewer than \<open>framesz\<close> samples,
  \<open>delta\<close> is not the array of \<open>framesz/2\<close> floats or is empty (\<open>delta[0]\<close> is written),
  or the conversion in \<open>searchForOtherRecentMinima\<close> is undefined.
\<close>

definition pitchYin :: "arith \<Rightarrow> YIN \<Rightarrow> flt list \<Rightarrow> (flt \<times> YIN) option" where
  "pitchYin ar y frame =
     (if length frame < framesz y \<or> length (delta y) \<noteq> framesz y div 2 \<or> framesz y div 2 = 0
      then None
      else
        (let d = cumulativeMeanNormalisedDifferenceFunction ar y frame;
             y = y\<lparr>delta := d\<rparr>
         in case searchForOtherRecentMinima y d of None \<Rightarrow> None
            | Some continuityPeriod \<Rightarrow>
                (let period = (if continuityPeriod = - 1 then getPeriodCandidate ar y d
                               else nat continuityPeriod);
                     fPeriod = (if 0 < period \<and> period < framesz y div 2 - 1
                                then parabolicInterpolation ar period
                                       (d ! (period - 1)) (d ! period) (d ! (period + 1))
                                else nat_to32 ar period);
                     y = y\<lparr>prevPeriodEstimate := fPeriod\<rparr>
                 in Some (periodToPitch ar y fPeriod, y))))"

section \<open>Properties of the lifecycle\<close>

lemmas consts_defs = ANALYZER_DEFAULT_GAIN_def ANALYZER_DEFAULT_MICSENS_def
  ANALYZER_DEFAULT_SAMPLEFREQ_def ANALYZER_DEFAULT_FFTLENGTH_def
  ANALYZER_DEFAULT_ROLLOFF_PERCENTILE_def ANALYZER_DEFAULT_FUZZFACTOR_def
  ANALYZER_DEFAULT_NUMRANGES_def ANALYZER_DEFAULT_RANGES_256_def
  ANALYZER_DEFAULT_RANGES_512_def ANALYZER_DEFAULT_MFCC_COEFF_def

lemmas lifecycle_defs = setConfig_def setConfig_release_def setConfig_store_def
  setConfig_rescale_def Begin_def Begin_mfcc_def Begin_Signature_def Begin_yin_def
  End_def operator_new_def delete_block_def rescale_entry_def
  defaultConfig_def blank_Analyzer_def start_world_def DefaultRanges_def

subsection \<open>What each step leaves alone\<close>

lemma and_then_Returned:
  assumes "and_then r k = Returned x"
  obtains y where "r = Returned y" and "k y = Returned x"
  using assms by (cases r) simp_all

lemma operator_new_frame:
  "operator_new a w = Returned (p, w') \<Longrightarrow>
     unsigned_mem w' = unsigned_mem w \<and> getConfig_cfg w' = getConfig_cfg w"
  by (auto simp: operator_new_def split: list.splits bool.splits)

lemma End_frame:
  "End a w = (a', w') \<Longrightarrow>
     Config a' = Config a \<and> unsigned_mem w' = unsigned_mem w \<and>
     getConfig_cfg w' = getConfig_cfg w"
  by (auto simp: End_def delete_block_def Let_def split: option.splits)

lemma Begin_mfcc_frame:
  assumes "Begin_mfcc m a w = Returned (m', a', w')"
  shows "Config a' = Config a \<and> unsigned_mem w' = unsigned_mem w \<and>
         getConfig_cfg w' = getConfig_cfg w \<and> (m \<longrightarrow> m')"
proof (cases "0 < mfcccoeff (Config a) \<and> m")
  case False
  with assms show ?thesis by (auto simp: Begin_mfcc_def)
next
  case True
  with assms obtain p w1 where n: "operator_new a w = Returned (p, w1)"
    and r: "Returned (True, a\<lparr>mfcc := Some p, Mfccs := Some p\<rparr>, w1) = Returned (m', a', w')"
    by (auto simp: Begin_mfcc_def Let_def elim!: and_then_Returned)
  from operator_new_frame[OF n] r show ?thesis by auto
qed

lemma Begin_Signature_frame:
  assumes "Begin_Signature m a w = Returned (m', a', w')"
  shows "Config a' = Config a \<and> unsigned_mem w' = unsigned_mem w \<and>
         getConfig_cfg w' = getConfig_cfg w \<and> (m \<longrightarrow> m')"
proof (cases "0 < numranges (Config a) \<and> m")
  case False
  with assms show ?thesis by (auto simp: Begin_Signature_def)
next
  case True
  with assms obtain p w1 where n: "operator_new a w = Returned (p, w1)"
    and r: "Returned (True, a\<lparr>Signature := Some p\<rparr>, w1) = Returned (m', a', w')"
    by (auto simp: Begin_Signature_def Let_def elim!: and_then_Returned)
  from operator_new_frame[OF n] r show ?thesis by auto
qed

lemma Begin_yin_frame:
  assumes "Begin_yin m a w = Returned (m', a', w')"
  shows "Config a' = Config a \<and> unsigned_mem w' = unsigned_mem w \<and>
         getConfig_cfg w' = getConfig_cfg w \<and> (m \<longrightarrow> m')"
proof (cases m)
  case False
  with assms show ?thesis by (auto simp: Begin_yin_def)
next
  case True
  with assms obtain p w1 where n: "operator_new a w = Returned (p, w1)"
    and r: "Returned (True, a\<lparr>yin := Some p\<rparr>, w1) = Returned (m', a', w')"
    by (auto simp: Begin_yin_def Let_def elim!: and_then_Returned)
  from operator_new_frame[OF n] r show ?thesis by auto
qed

text \<open>A call of \<open>Begin\<close> that returns leaves the configuration, the range arrays and
  the static of \<open>getConfig\<close> alone, and it returns \<open>true\<close>: the \<open>return false\<close> of the
  source is never reached, because a \<open>new\<close> that fails does not come back with null.\<close>

lemma Begin_Returned:
  assumes "Begin a w = Returned (ok, a', w')"
  shows "Config a' = Config a \<and> unsigned_mem w' = unsigned_mem w \<and>
         getConfig_cfg w' = getConfig_cfg w \<and> ok"
proof (cases "initialized a")
  case True
  with assms show ?thesis by (simp add: Begin_def)
next
  case False
  define a0 where "a0 = a\<lparr>Fr := fdiv (flt_of_u32 (samplefreq (Config a)))
                                  (flt_of_u32 (fftlength (Config a))),
                          NumBins := fftlength (Config a) div 2\<rparr>"
  from assms False obtain p1 w1 p2 w2 p3 w3 m4 a4 w4 m5 a5 w5 m6 a6 w6 where
    n1: "operator_new a0 w = Returned (p1, w1)"
    and n2: "operator_new (a0\<lparr>signal := Some p1\<rparr>) w1 = Returned (p2, w2)"
    and n3: "operator_new (a0\<lparr>signal := Some p1, spectrum := Some p2\<rparr>) w2 = Returned (p3, w3)"
    and s4: "Begin_mfcc True
               (a0\<lparr>signal := Some p1, spectrum := Some p2, FFT := Some p3, Bins := Some p2\<rparr>) w3 =
             Returned (m4, a4, w4)"
    and s5: "Begin_Signature m4 a4 w4 = Returned (m5, a5, w5)"
    and s6: "Begin_yin m5 a5 w5 = Returned (m6, a6, w6)"
    and fin: "(if \<not> m6 then Returned (False, a6, w6)
               else Returned (True, a6\<lparr>initialized := True\<rparr>, w6)) = Returned (ok, a', w')"
    by (auto simp: Begin_def Let_def a0_def elim!: and_then_Returned)
  from Begin_mfcc_frame[OF s4] Begin_Signature_frame[OF s5] Begin_yin_frame[OF s6]
  have m6: m6 by simp
  with fin have e: "ok" "a' = a6\<lparr>initialized := True\<rparr>" "w' = w6" by simp_all
  have c0: "Config a0 = Config a" by (simp add: a0_def)
  from operator_new_frame[OF n1] operator_new_frame[OF n2] operator_new_frame[OF n3]
    Begin_mfcc_frame[OF s4] Begin_Signature_frame[OF s5] Begin_yin_frame[OF s6] c0 e
  show ?thesis by simp
qed

lemma Begin_frame:
  assumes "Begin a w = Returned (ok, a', w')"
  shows "Config a' = Config a \<and> unsigned_mem w' = unsigned_mem w \<and>
         getConfig_cfg w' = getConfig_cfg w"
  using Begin_Returned[OF assms] by simp

lemma setConfig_release_frame:
  "setConfig_release c a w = (a1, w1) \<Longrightarrow>
     unsigned_mem w1 = unsigned_mem w \<and> getConfig_cfg w1 = getConfig_cfg w"
  by (auto simp: setConfig_release_def split: if_splits dest: End_frame)

lemma setConfig_store_Config: "Config (setConfig_store c a) = c"
  by (simp add: setConfig_store_def Let_def)


text \<open>The stages of a call that returned.\<close>

lemma setConfig_ReturnedE:
  assumes "setConfig c a w = Returned (a', w')"
  obtains a1 w1 a2 w2 ok where
    "setConfig_release c a w = (a1, w1)"
    "setConfig_rescale (setConfig_store c a1) w1 = Some (a2, w2)"
    "Begin a2 w2 = Returned (ok, a', w')"
  using assms
  by (auto simp: setConfig_def Let_def split: prod.splits option.splits
      elim!: and_then_Returned)



text \<open>The range array and the stored configuration after a call: rescaled exactly
  when the transform length is not 512 and the ranges pointer is \<open>DefaultRanges\<close>.\<close>

lemma setConfig_rescaled:
  assumes "setConfig c a w = Returned (a', w')"
    and "fftlength c \<noteq> ANALYZER_DEFAULT_FFTLENGTH" and "ranges c = DefaultRanges"
  shows "\<exists>arr arr'. unsigned_mem w DefaultRanges = Some arr \<and>
            rescale_ranges (numranges c) (fftlength c) arr = Some arr' \<and>
            unsigned_mem w' = (unsigned_mem w)(DefaultRanges \<mapsto> arr') \<and>
            Config a' = c\<lparr>fuzzfactor := ANALYZER_DEFAULT_FUZZFACTOR * fftlength c
                                          div ANALYZER_DEFAULT_FFTLENGTH\<rparr>"
proof -
  from assms(1) obtain a1 w1 a2 w2 ok where
    r: "setConfig_release c a w = (a1, w1)"
    and s: "setConfig_rescale (setConfig_store c a1) w1 = Some (a2, w2)"
    and b: "Begin a2 w2 = Returned (ok, a', w')"
    by (rule setConfig_ReturnedE)
  from s assms(2,3) obtain arr arr' where
    "unsigned_mem w1 DefaultRanges = Some arr"
    "rescale_ranges (numranges c) (fftlength c) arr = Some arr'"
    "unsigned_mem w2 = (unsigned_mem w1)(DefaultRanges \<mapsto> arr')"
    "Config a2 = c\<lparr>fuzzfactor := ANALYZER_DEFAULT_FUZZFACTOR * fftlength c
                                          div ANALYZER_DEFAULT_FFTLENGTH\<rparr>"
    by (auto simp: setConfig_rescale_def setConfig_store_Config split: option.splits)
  with setConfig_release_frame[OF r] Begin_frame[OF b] show ?thesis by simp
qed

lemma setConfig_not_rescaled:
  assumes "setConfig c a w = Returned (a', w')"
    and "fftlength c = ANALYZER_DEFAULT_FFTLENGTH \<or> ranges c \<noteq> DefaultRanges"
  shows "unsigned_mem w' = unsigned_mem w \<and> Config a' = c"
proof -
  from assms(1) obtain a1 w1 a2 w2 ok where
    r: "setConfig_release c a w = (a1, w1)"
    and s: "setConfig_rescale (setConfig_store c a1) w1 = Some (a2, w2)"
    and b: "Begin a2 w2 = Returned (ok, a', w')"
    by (rule setConfig_ReturnedE)
  from s assms(2) have "unsigned_mem w2 = unsigned_mem w1 \<and> Config a2 = c"
    by (auto simp: setConfig_rescale_def setConfig_store_Config split: if_splits)
  with setConfig_release_frame[OF r] Begin_frame[OF b] show ?thesis by simp
qed


subsection \<open>Rescaling of the default ranges\<close>

lemma rescale_fold:
  "n \<le> length arr \<Longrightarrow>
     fold (\<lambda>i arr. arr[i := f (arr ! i)]) [0..<n] arr = map f (take n arr) @ drop n arr"
proof (induction n)
  case 0
  then show ?case by simp
next
  case (Suc n)
  then have n: "n < length arr" by simp
  have "fold (\<lambda>i arr. arr[i := f (arr ! i)]) [0..<Suc n] arr =
        (map f (take n arr) @ drop n arr)[n := f ((map f (take n arr) @ drop n arr) ! n)]"
    using Suc by simp
  also have "(map f (take n arr) @ drop n arr) ! n = arr ! n"
    using n by (simp add: nth_append)
  also have "(map f (take n arr) @ drop n arr)[n := f (arr ! n)] =
             map f (take n arr) @ (drop n arr)[0 := f (arr ! n)]"
    using n by (simp add: list_update_append)
  also have "(drop n arr)[0 := f (arr ! n)] = f (arr ! n) # drop (Suc n) arr"
    using n by (simp add: Cons_nth_drop_Suc[symmetric])
  also have "map f (take n arr) @ f (arr ! n) # drop (Suc n) arr =
             map f (take (Suc n) arr) @ drop (Suc n) arr"
    using n by (simp add: take_Suc_conv_app_nth)
  finally show ?case .
qed

lemma rescale_ranges_eq:
  "rescale_ranges n L arr =
     (if unat n \<le> length arr
      then Some (map (rescale_entry L) (take (unat n) arr) @ drop (unat n) arr) else None)"
  by (simp add: rescale_ranges_def rescale_fold)

lemma rescale_256_to_512:
  "rescale_ranges ANALYZER_DEFAULT_NUMRANGES 1024 ANALYZER_DEFAULT_RANGES_256 =
     Some ANALYZER_DEFAULT_RANGES_512"
  by (simp add: rescale_ranges_eq rescale_entry_def consts_defs)

text \<open>
  Claim C2, as the code has it. The default transform length is 512 and the default
  ranges \<open>{5,10,20,40,80,256}\<close> are the boundaries for its 256 bins: a configuration
  with the default ranges and transform length 512 is not rescaled at all, and its fuzz
  factor stays 32.
\<close>

theorem setConfig_default_512_not_rescaled:
  "\<exists>a w. setConfig defaultConfig blank_Analyzer start_world = Returned (a, w) \<and>
     fftlength (Config a) = 512 \<and>
     unsigned_mem w DefaultRanges = Some [5, 10, 20, 40, 80, 256] \<and>
     unsigned_mem w DefaultRanges \<noteq> Some [10, 20, 40, 80, 160, 512] \<and>
     fuzzfactor (Config a) = 32 \<and> fuzzfactor (Config a) \<noteq> 64"
  by (simp add: lifecycle_defs consts_defs Let_def)

text \<open>
  Claim C2, amended: with the default ranges and transform length 1024 the length-512
  baseline \<open>{5,10,20,40,80,256}\<close> is rescaled by 1024/512 to \<open>{10,20,40,80,160,512}\<close>
  and the fuzz factor becomes 64; with transform length 512 neither the boundaries nor
  the configured fuzz factor change.
\<close>

theorem setConfig_default_ranges_rescale:
  assumes "unsigned_mem w DefaultRanges = Some ANALYZER_DEFAULT_RANGES_256"
    and "ranges cfg = DefaultRanges"
    and "numranges cfg = ANALYZER_DEFAULT_NUMRANGES"
    and "setConfig cfg a w = Returned (a', w')"
  shows "(fftlength cfg = 1024 \<longrightarrow>
            unsigned_mem w' DefaultRanges = Some ANALYZER_DEFAULT_RANGES_512 \<and>
            fuzzfactor (Config a') = 64) \<and>
         (fftlength cfg = 512 \<longrightarrow>
            unsigned_mem w' DefaultRanges = Some ANALYZER_DEFAULT_RANGES_256 \<and>
            fuzzfactor (Config a') = fuzzfactor cfg)"
proof (intro conjI impI)
  assume L: "fftlength cfg = 1024"
  then have "fftlength cfg \<noteq> ANALYZER_DEFAULT_FFTLENGTH"
    by (simp add: ANALYZER_DEFAULT_FFTLENGTH_def)
  from setConfig_rescaled[OF assms(4) this assms(2)] assms(1,3) L
  have "unsigned_mem w' DefaultRanges =
          rescale_ranges ANALYZER_DEFAULT_NUMRANGES 1024 ANALYZER_DEFAULT_RANGES_256"
    and f: "fuzzfactor (Config a') = ANALYZER_DEFAULT_FUZZFACTOR * 1024 div ANALYZER_DEFAULT_FFTLENGTH"
    by auto
  then show "unsigned_mem w' DefaultRanges = Some ANALYZER_DEFAULT_RANGES_512"
    by (simp add: rescale_256_to_512)
  from f show "fuzzfactor (Config a') = 64"
    by (simp add: consts_defs)
next
  assume L: "fftlength cfg = 512"
  then have "fftlength cfg = ANALYZER_DEFAULT_FFTLENGTH \<or> ranges cfg \<noteq> DefaultRanges"
    by (simp add: ANALYZER_DEFAULT_FFTLENGTH_def)
  from setConfig_not_rescaled[OF assms(4) this] assms(1)
  show "unsigned_mem w' DefaultRanges = Some ANALYZER_DEFAULT_RANGES_256"
    and "fuzzfactor (Config a') = fuzzfactor cfg"
    by simp_all
qed

lemma setConfig_default_1024:
  "setConfig (defaultConfig\<lparr>fftlength := 1024\<rparr>) blank_Analyzer start_world =
     Returned (blank_Analyzer
             \<lparr>Config := defaultConfig\<lparr>fftlength := 1024, fuzzfactor := 64\<rparr>,
              initialized := True, signal := Some 100, spectrum := Some 101,
              FFT := Some 102, mfcc := Some 103, yin := Some 105, Signature := Some 104,
              Bins := Some 101, Mfccs := Some 103, NumBins := 512,
              Fr := Fin (44100 / 1024), SignatureLen := 6, NumMfccCoeff := 13\<rparr>,
           start_world
             \<lparr>unsigned_mem := Map.empty(DefaultRanges \<mapsto> ANALYZER_DEFAULT_RANGES_512),
              live := [105, 104, 103, 102, 101, 100], next_addr := 106\<rparr>)"
  by (simp add: lifecycle_defs rescale_ranges_eq consts_defs Let_def flt_of_u32_def)

lemma setConfig_default_512:
  "setConfig defaultConfig blank_Analyzer start_world =
     Returned (blank_Analyzer
             \<lparr>Config := defaultConfig,
              initialized := True, signal := Some 100, spectrum := Some 101,
              FFT := Some 102, mfcc := Some 103, yin := Some 105, Signature := Some 104,
              Bins := Some 101, Mfccs := Some 103, NumBins := 256,
              Fr := Fin (44100 / 512), SignatureLen := 6, NumMfccCoeff := 13\<rparr>,
           start_world
             \<lparr>live := [105, 104, 103, 102, 101, 100], next_addr := 106\<rparr>)"
  by (simp add: lifecycle_defs consts_defs Let_def flt_of_u32_def)

theorem setConfig_default_ranges_rescale_witness:
  "(\<exists>a' w'. setConfig (defaultConfig\<lparr>fftlength := 1024\<rparr>) blank_Analyzer start_world = Returned (a', w') \<and>
      unsigned_mem w' DefaultRanges = Some ANALYZER_DEFAULT_RANGES_512 \<and>
      fuzzfactor (Config a') = 64) \<and>
   (\<exists>a' w'. setConfig defaultConfig blank_Analyzer start_world = Returned (a', w') \<and>
      unsigned_mem w' DefaultRanges = Some ANALYZER_DEFAULT_RANGES_256 \<and>
      fuzzfactor (Config a') = 32)"
proof -
  have m: "unsigned_mem start_world DefaultRanges = Some ANALYZER_DEFAULT_RANGES_256"
    by (simp add: start_world_def)
  have r1: "ranges (defaultConfig\<lparr>fftlength := 1024\<rparr>) = DefaultRanges"
    and n1: "numranges (defaultConfig\<lparr>fftlength := 1024\<rparr>) = ANALYZER_DEFAULT_NUMRANGES"
    and l1: "fftlength (defaultConfig\<lparr>fftlength := 1024\<rparr>) = 1024"
    and r2: "ranges defaultConfig = DefaultRanges"
    and n2: "numranges defaultConfig = ANALYZER_DEFAULT_NUMRANGES"
    and l2: "fftlength defaultConfig = 512"
    and f2: "fuzzfactor defaultConfig = 32"
    by (simp_all add: defaultConfig_def consts_defs)
  from setConfig_default_ranges_rescale[OF m r1 n1 setConfig_default_1024] l1
  have "\<exists>a' w'. setConfig (defaultConfig\<lparr>fftlength := 1024\<rparr>) blank_Analyzer start_world = Returned (a', w') \<and>
      unsigned_mem w' DefaultRanges = Some ANALYZER_DEFAULT_RANGES_512 \<and>
      fuzzfactor (Config a') = 64"
    using setConfig_default_1024 by simp
  moreover from setConfig_default_ranges_rescale[OF m r2 n2 setConfig_default_512] l2 f2
  have "\<exists>a' w'. setConfig defaultConfig blank_Analyzer start_world = Returned (a', w') \<and>
      unsigned_mem w' DefaultRanges = Some ANALYZER_DEFAULT_RANGES_256 \<and>
      fuzzfactor (Config a') = 32"
    using setConfig_default_512 by simp
  ultimately show ?thesis by blast
qed

subsection \<open>Reapplying a configuration of the same sizes\<close>

lemma setConfig_rescale_keeps:
  "setConfig_rescale a w = Some (a', w') \<Longrightarrow>
     initialized a' = initialized a \<and> signal a' = signal a \<and> spectrum a' = spectrum a \<and>
     Signature a' = Signature a \<and> FFT a' = FFT a \<and> mfcc a' = mfcc a \<and> yin a' = yin a \<and>
     live w' = live w \<and> next_addr w' = next_addr w \<and> outcomes w' = outcomes w"
  by (auto simp: setConfig_rescale_def split: if_splits option.splits)

lemma setConfig_store_keeps:
  "initialized (setConfig_store c a) = initialized a \<and> signal (setConfig_store c a) = signal a \<and>
   spectrum (setConfig_store c a) = spectrum a \<and> Signature (setConfig_store c a) = Signature a \<and>
   FFT (setConfig_store c a) = FFT a \<and> mfcc (setConfig_store c a) = mfcc a \<and>
   yin (setConfig_store c a) = yin a"
  by (simp add: setConfig_store_def Let_def)

text \<open>
  Claim C3. On an initialized engine, a configuration with the same transform length,
  sample rate, range count and coefficient count leaves every owned pointer as it was,
  and the free store too: nothing is deleted, nothing is requested.
\<close>

theorem setConfig_same_sizes_keeps_buffers:
  assumes "initialized a"
    and "fftlength newCfg = fftlength (Config a)"
    and "samplefreq newCfg = samplefreq (Config a)"
    and "numranges newCfg = numranges (Config a)"
    and "mfcccoeff newCfg = mfcccoeff (Config a)"
    and "setConfig newCfg a w = Returned (a', w')"
  shows "signal a' = signal a \<and> spectrum a' = spectrum a \<and> Signature a' = Signature a \<and>
         FFT a' = FFT a \<and> mfcc a' = mfcc a \<and> yin a' = yin a \<and>
         live w' = live w \<and> next_addr w' = next_addr w \<and> outcomes w' = outcomes w \<and>
         initialized a'"
proof -
  from assms(6) obtain a1 w1 a2 w2 ok where
    r: "setConfig_release newCfg a w = (a1, w1)"
    and s: "setConfig_rescale (setConfig_store newCfg a1) w1 = Some (a2, w2)"
    and b: "Begin a2 w2 = Returned (ok, a', w')"
    by (rule setConfig_ReturnedE)
  from r assms(1-5) have same: "a1 = a" "w1 = w"
    by (simp_all add: setConfig_release_def)
  from setConfig_rescale_keeps[OF s] setConfig_store_keeps[of newCfg a1] same
  have k: "initialized a2 = initialized a \<and> signal a2 = signal a \<and> spectrum a2 = spectrum a \<and>
     Signature a2 = Signature a \<and> FFT a2 = FFT a \<and> mfcc a2 = mfcc a \<and> yin a2 = yin a \<and>
     live w2 = live w \<and> next_addr w2 = next_addr w \<and> outcomes w2 = outcomes w"
    by simp
  with assms(1) b have "a' = a2" "w' = w2"
    by (simp_all add: Begin_def)
  with k assms(1) show ?thesis by simp
qed

text \<open>Such a call returns whenever the rescaling loop stays inside the array.\<close>

lemma setConfig_same_sizes_defined:
  assumes "initialized a"
    and "fftlength newCfg = fftlength (Config a)"
    and "samplefreq newCfg = samplefreq (Config a)"
    and "numranges newCfg = numranges (Config a)"
    and "mfcccoeff newCfg = mfcccoeff (Config a)"
    and "ranges newCfg = DefaultRanges \<and> fftlength newCfg \<noteq> ANALYZER_DEFAULT_FFTLENGTH \<longrightarrow>
           (\<exists>arr. unsigned_mem w DefaultRanges = Some arr \<and> unat (numranges newCfg) \<le> length arr)"
  shows "\<exists>a' w'. setConfig newCfg a w = Returned (a', w')"
  using assms
  by (auto simp: setConfig_def setConfig_release_def setConfig_store_def setConfig_rescale_def
      rescale_ranges_eq Begin_def Let_def)

lemma setConfig_retune:
  "setConfig (defaultConfig\<lparr>gain := 80, fuzzfactor := 16\<rparr>)
     (blank_Analyzer
             \<lparr>Config := defaultConfig,
              initialized := True, signal := Some 100, spectrum := Some 101,
              FFT := Some 102, mfcc := Some 103, yin := Some 105, Signature := Some 104,
              Bins := Some 101, Mfccs := Some 103, NumBins := 256,
              Fr := Fin (44100 / 512), SignatureLen := 6, NumMfccCoeff := 13\<rparr>)
     (start_world\<lparr>live := [105, 104, 103, 102, 101, 100], next_addr := 106\<rparr>) =
   Returned (blank_Analyzer
             \<lparr>Config := defaultConfig\<lparr>gain := 80, fuzzfactor := 16\<rparr>,
              initialized := True, signal := Some 100, spectrum := Some 101,
              FFT := Some 102, mfcc := Some 103, yin := Some 105, Signature := Some 104,
              Bins := Some 101, Mfccs := Some 103, NumBins := 256,
              Fr := Fin (44100 / 512), SignatureLen := 6, NumMfccCoeff := 13\<rparr>,
         start_world\<lparr>live := [105, 104, 103, 102, 101, 100], next_addr := 106\<rparr>)"
  by (simp add: lifecycle_defs consts_defs Let_def flt_of_u32_def)

theorem setConfig_same_sizes_keeps_buffers_witness:
  "\<exists>a w a' w'.
     setConfig defaultConfig blank_Analyzer start_world = Returned (a, w) \<and> initialized a \<and>
     setConfig (defaultConfig\<lparr>gain := 80, fuzzfactor := 16\<rparr>) a w = Returned (a', w') \<and>
     gain (Config a') = 80 \<and> gain (Config a) = 75 \<and>
     signal a' = signal a \<and> spectrum a' = spectrum a \<and> Signature a' = Signature a \<and>
     FFT a' = FFT a \<and> mfcc a' = mfcc a \<and> yin a' = yin a \<and> signal a' = Some 100 \<and>
     live w' = live w \<and> next_addr w' = next_addr w \<and> outcomes w' = outcomes w \<and>
     initialized a'"
proof -
  let ?a = "blank_Analyzer
             \<lparr>Config := defaultConfig,
              initialized := True, signal := Some 100, spectrum := Some 101,
              FFT := Some 102, mfcc := Some 103, yin := Some 105, Signature := Some 104,
              Bins := Some 101, Mfccs := Some 103, NumBins := 256,
              Fr := Fin (44100 / 512), SignatureLen := 6, NumMfccCoeff := 13\<rparr>"
  let ?w = "start_world\<lparr>live := [105, 104, 103, 102, 101, 100], next_addr := 106\<rparr>"
  let ?c = "defaultConfig\<lparr>gain := 80, fuzzfactor := 16\<rparr>"
  have i: "initialized ?a" by simp
  have e: "fftlength ?c = fftlength (Config ?a)" "samplefreq ?c = samplefreq (Config ?a)"
    "numranges ?c = numranges (Config ?a)" "mfcccoeff ?c = mfcccoeff (Config ?a)"
    by simp_all
  note k = setConfig_same_sizes_keeps_buffers[OF i e setConfig_retune]
  have g: "gain (Config ?a) = 75" by (simp add: defaultConfig_def consts_defs)
  show ?thesis
    apply (rule exI[of _ ?a], rule exI[of _ ?w])
    apply (rule exI[of _ "blank_Analyzer
             \<lparr>Config := defaultConfig\<lparr>gain := 80, fuzzfactor := 16\<rparr>,
              initialized := True, signal := Some 100, spectrum := Some 101,
              FFT := Some 102, mfcc := Some 103, yin := Some 105, Signature := Some 104,
              Bins := Some 101, Mfccs := Some 103, NumBins := 256,
              Fr := Fin (44100 / 512), SignatureLen := 6, NumMfccCoeff := 13\<rparr>"], rule exI[of _ ?w])
    using k g setConfig_default_512 setConfig_retune by simp
qed

subsection \<open>The snapshot of getConfig\<close>




subsection \<open>Allocation failure\<close>

text \<open>
  Claim C1 does not hold of \<open>Begin\<close>. Every buffer is requested with a plain \<open>new\<close>,
  which does not return null: when a request fails, control leaves \<open>Begin\<close> (and
  \<open>setConfig\<close>, which has no handler) at that \<open>new\<close>. So
  \<^item> a call of \<open>Begin\<close> that returns returns \<open>true\<close>: the \<open>memok\<close> tests, the log line and
    \<open>return false\<close> are never reached, and no boolean reports a failure;
  \<^item> in the constructor's \<open>setConfig(defaultConfig())\<close> on a fresh object, when the
    second request (\<open>spectrum\<close>) fails, \<open>signal\<close> still points to its block and the
    block is still allocated;
  \<^item> when the sixth request (\<open>yin\<close>) fails, the five blocks obtained before are still
    owned and allocated.

  In both runs \<open>initialized\<close> is false, and nothing was deleted or set to null.
\<close>

theorem Begin_allocation_failure:
  "(Begin a w = Returned (ok, a', w') \<longrightarrow> ok) \<and>
   (\<exists>a w. setConfig defaultConfig blank_Analyzer (start_world\<lparr>outcomes := [True, False]\<rparr>) =
             Thrown a w \<and>
      \<not> initialized a \<and> signal a = Some 100 \<and> spectrum a = None \<and> live w = [100]) \<and>
   (\<exists>a w. setConfig defaultConfig blank_Analyzer
             (start_world\<lparr>outcomes := [True, True, True, True, True, False]\<rparr>) = Thrown a w \<and>
      \<not> initialized a \<and> signal a = Some 100 \<and> spectrum a = Some 101 \<and> FFT a = Some 102 \<and>
      mfcc a = Some 103 \<and> Signature a = Some 104 \<and> yin a = None \<and>
      live w = [104, 103, 102, 101, 100])"
proof (intro conjI impI)
  assume "Begin a w = Returned (ok, a', w')"
  from Begin_Returned[OF this] show ok by simp
qed (simp_all add: lifecycle_defs consts_defs Let_def flt_of_u32_def)

theorem Begin_allocation_failure_witness:
  "(\<exists>a w. Begin (setConfig_store defaultConfig blank_Analyzer) start_world =
             Returned (True, a, w) \<and> initialized a) \<and>
   (\<exists>a w. setConfig defaultConfig blank_Analyzer (start_world\<lparr>outcomes := [True, False]\<rparr>) =
             Thrown a w \<and>
      \<not> initialized a \<and> signal a = Some 100 \<and> spectrum a = None \<and> live w = [100])"
proof -
  obtain ok a w where
    b: "Begin (setConfig_store defaultConfig blank_Analyzer) start_world = Returned (ok, a, w)"
    and i: "initialized a = ok"
    by (simp add: lifecycle_defs consts_defs Let_def flt_of_u32_def)
  from Begin_allocation_failure[of "setConfig_store defaultConfig blank_Analyzer" start_world ok a w] b
  have ok by simp
  with b i have "\<exists>a w. Begin (setConfig_store defaultConfig blank_Analyzer) start_world =
             Returned (True, a, w) \<and> initialized a" by auto
  with Begin_allocation_failure[of "setConfig_store defaultConfig blank_Analyzer" start_world ok a w]
  show ?thesis by blast
qed


subsection \<open>Repeated rescaling of the shared default ranges\<close>

lemma unat_rescale_entry:
  "unat (rescale_entry L r) = (unat r * unat L) mod 2 ^ 32 div 512"
  by (simp add: rescale_entry_def ANALYZER_DEFAULT_FFTLENGTH_def unat_div unat_word_ariths)

lemma rescale_entry_exact:
  assumes "unat L = 512 * k" and "512 * unat r * k < 2 ^ 32"
  shows "unat (rescale_entry L r) = unat r * k"
proof -
  have e: "unat r * unat L = 512 * (unat r * k)"
    unfolding assms(1) by (simp only: mult.assoc mult.left_commute)
  from assms(2) have "512 * (unat r * k) < (2::nat) ^ 32"
    by (simp only: mult.assoc)
  then have "(512 * (unat r * k)) mod 2 ^ 32 = 512 * (unat r * k)"
    by (rule mod_less)
  then have "(unat r * unat L) mod 2 ^ 32 div 512 = 512 * (unat r * k) div 512"
    unfolding e by (rule arg_cong)
  then show ?thesis
    unfolding unat_rescale_entry by simp
qed

lemma rescale_entry_funpow_exact:
  assumes "unat L = 512 * k" and "512 * unat r * k ^ n < 2 ^ 32"
  shows "unat ((rescale_entry L ^^ n) r) = unat r * k ^ n"
  using assms(2)
proof (induction n)
  case 0
  then show ?case by simp
next
  case (Suc n)
  show ?case
  proof (cases "k = 0")
    case True
    with assms(1) have "unat L = 0" by simp
    then show ?thesis using True by (simp add: unat_rescale_entry)
  next
    case False
    then have "k ^ n \<le> k ^ Suc n" by simp
    then have "512 * unat r * k ^ n \<le> 512 * unat r * k ^ Suc n"
      by (rule mult_le_mono2)
    with Suc.prems have "512 * unat r * k ^ n < 2 ^ 32" by linarith
    then have ih: "unat ((rescale_entry L ^^ n) r) = unat r * k ^ n" by (rule Suc.IH)
    from Suc.prems have "512 * (unat r * k ^ n) * k < 2 ^ 32"
      by (simp add: mult.assoc mult.commute mult.left_commute)
    with ih have "512 * unat ((rescale_entry L ^^ n) r) * k < 2 ^ 32" by simp
    from rescale_entry_exact[OF assms(1) this] ih show ?thesis
      by (simp add: mult.assoc)
  qed
qed

lemma setConfigs_replicate_rescaled:
  assumes "ranges cfg = DefaultRanges" and "fftlength cfg \<noteq> ANALYZER_DEFAULT_FFTLENGTH"
    and "unsigned_mem w DefaultRanges = Some arr"
    and "setConfigs (replicate n cfg) a w = Returned (a', w')"
  shows "unsigned_mem w' DefaultRanges =
           Some (map (rescale_entry (fftlength cfg) ^^ n) (take (unat (numranges cfg)) arr) @
                 drop (unat (numranges cfg)) arr) \<and>
         (0 < n \<longrightarrow> Config a' = cfg\<lparr>fuzzfactor := ANALYZER_DEFAULT_FUZZFACTOR * fftlength cfg
                                          div ANALYZER_DEFAULT_FFTLENGTH\<rparr>) \<and>
         (0 < n \<longrightarrow> unat (numranges cfg) \<le> length arr)"
  using assms(3,4)
proof (induction n arbitrary: a w arr)
  case 0
  then show ?case by simp
next
  case (Suc n)
  let ?k = "unat (numranges cfg)"
  let ?f = "rescale_entry (fftlength cfg)"
  from Suc.prems(2) obtain a1 w1 where
    s: "setConfig cfg a w = Returned (a1, w1)"
    and r: "setConfigs (replicate n cfg) a1 w1 = Returned (a', w')"
    by (auto elim!: and_then_Returned)
  from setConfig_rescaled[OF s assms(2,1)] Suc.prems(1)
  have len: "?k \<le> length arr"
    and m1: "unsigned_mem w1 DefaultRanges = Some (map ?f (take ?k arr) @ drop ?k arr)"
    and c1: "Config a1 = cfg\<lparr>fuzzfactor := ANALYZER_DEFAULT_FUZZFACTOR * fftlength cfg
                                          div ANALYZER_DEFAULT_FFTLENGTH\<rparr>"
    by (auto simp: rescale_ranges_eq split: if_splits)
  note ih = Suc.IH[OF m1 r]
  have t: "take ?k (map ?f (take ?k arr) @ drop ?k arr) = map ?f (take ?k arr)"
    and d: "drop ?k (map ?f (take ?k arr) @ drop ?k arr) = drop ?k arr"
    using len by simp_all
  have "map (?f ^^ n) (map ?f (take ?k arr)) = map (?f ^^ Suc n) (take ?k arr)"
    by (simp add: funpow_swap1)
  with ih t d have mem: "unsigned_mem w' DefaultRanges =
      Some (map (?f ^^ Suc n) (take ?k arr) @ drop ?k arr)"
    by simp
  have cfg': "Config a' = cfg\<lparr>fuzzfactor := ANALYZER_DEFAULT_FUZZFACTOR * fftlength cfg
                                          div ANALYZER_DEFAULT_FFTLENGTH\<rparr>"
  proof (cases n)
    case 0
    with r c1 show ?thesis by simp
  next
    case (Suc m)
    with ih show ?thesis by simp
  qed
  from mem cfg' len show ?case by simp
qed

text \<open>
  Claim C10, as the code has it. With \<open>ranges = DefaultRanges\<close> and a transform length
  \<open>L\<close> other than 512, \<open>n\<close> calls of \<open>setConfig\<close> apply \<open>r \<mapsto> (r * L) / 512\<close>, in
  32-bit unsigned arithmetic, \<open>n\<close> times to each of the first \<open>numranges\<close> entries of the
  shared array and leave the others alone. Where 512 divides \<open>L\<close> and no product leaves
  32 bits, an entry \<open>r\<close> has become \<open>r * (L/512)^n\<close>. The array is the one
  \<open>defaultConfig()\<close> points to, and the one every engine whose configuration points to
  \<open>DefaultRanges\<close> reads. The fuzz factor is \<open>32 * L / 512\<close> after every call.
\<close>

theorem setConfig_default_ranges_compound:
  assumes "ranges cfg = DefaultRanges" and "fftlength cfg \<noteq> ANALYZER_DEFAULT_FFTLENGTH"
    and "unsigned_mem w DefaultRanges = Some arr"
    and "setConfigs (replicate n cfg) a w = Returned (a', w')"
  shows "\<exists>arr'. unsigned_mem w' DefaultRanges = Some arr' \<and> length arr' = length arr \<and>
           (\<forall>i. i < length arr \<longrightarrow>
                arr' ! i = (if i < unat (numranges cfg)
                            then (rescale_entry (fftlength cfg) ^^ n) (arr ! i) else arr ! i)) \<and>
           (\<forall>i k. i < unat (numranges cfg) \<and> i < length arr \<and> unat (fftlength cfg) = 512 * k \<and>
                  512 * unat (arr ! i) * k ^ n < 2 ^ 32 \<longrightarrow>
                  unat (arr' ! i) = unat (arr ! i) * k ^ n) \<and>
           (0 < n \<longrightarrow> fuzzfactor (Config a') =
                          ANALYZER_DEFAULT_FUZZFACTOR * fftlength cfg div ANALYZER_DEFAULT_FFTLENGTH) \<and>
           unsigned_mem w' (ranges defaultConfig) = Some arr' \<and>
           (ranges (Config b) = DefaultRanges \<longrightarrow> unsigned_mem w' (ranges (Config b)) = Some arr')"
proof -
  let ?k = "unat (numranges cfg)"
  let ?f = "rescale_entry (fftlength cfg)"
  let ?arr' = "map (?f ^^ n) (take ?k arr) @ drop ?k arr"
  note r = setConfigs_replicate_rescaled[OF assms]
  have len: "length ?arr' = length arr" by simp
  have nth: "?arr' ! i = (if i < ?k then (?f ^^ n) (arr ! i) else arr ! i)"
    if i: "i < length arr" for i
  proof (cases "i < ?k")
    case True
    with i show ?thesis by (simp add: nth_append)
  next
    case False
    with i show ?thesis by (simp add: nth_append min_def)
  qed
  have exact: "unat (?arr' ! i) = unat (arr ! i) * k ^ n"
    if "i < ?k" "i < length arr" "unat (fftlength cfg) = 512 * k"
       "512 * unat (arr ! i) * k ^ n < 2 ^ 32" for i k
    using that nth[of i] rescale_entry_funpow_exact[of "fftlength cfg" k "arr ! i" n] by simp
  have dc: "ranges defaultConfig = DefaultRanges" by (simp add: defaultConfig_def)
  show ?thesis
    apply (rule exI[of _ ?arr'])
    using r len nth exact dc by auto
qed

lemma setConfig_same_sizes_keeps_initialized:
  assumes "initialized a"
    and "fftlength newCfg = fftlength (Config a)"
    and "samplefreq newCfg = samplefreq (Config a)"
    and "numranges newCfg = numranges (Config a)"
    and "mfcccoeff newCfg = mfcccoeff (Config a)"
    and "setConfig newCfg a w = Returned (a', w')"
  shows "initialized a'"
  using assms
  by (auto simp: setConfig_def setConfig_release_def setConfig_store_def setConfig_rescale_def
      Begin_def Let_def split: if_splits option.splits)

lemma setConfigs_replicate_defined:
  assumes "ranges cfg = DefaultRanges"
    and "initialized a"
    and "fftlength cfg = fftlength (Config a)" and "samplefreq cfg = samplefreq (Config a)"
    and "numranges cfg = numranges (Config a)" and "mfcccoeff cfg = mfcccoeff (Config a)"
    and "unsigned_mem w DefaultRanges = Some arr" and "unat (numranges cfg) \<le> length arr"
  shows "\<exists>a' w'. setConfigs (replicate n cfg) a w = Returned (a', w')"
  using assms(2-)
proof (induction n arbitrary: a w arr)
  case 0
  then show ?case by simp
next
  case (Suc n)
  have "\<exists>a1 w1. setConfig cfg a w = Returned (a1, w1)"
    by (rule setConfig_same_sizes_defined) (use Suc.prems in auto)
  then obtain a1 w1 where s: "setConfig cfg a w = Returned (a1, w1)" by blast
  from setConfig_same_sizes_keeps_initialized[OF Suc.prems(1-5) s]
  have i1: "initialized a1" .
  have c1: "fftlength cfg = fftlength (Config a1) \<and> samplefreq cfg = samplefreq (Config a1) \<and>
            numranges cfg = numranges (Config a1) \<and> mfcccoeff cfg = mfcccoeff (Config a1)"
  proof (cases "fftlength cfg \<noteq> ANALYZER_DEFAULT_FFTLENGTH")
    case True
    from setConfig_rescaled[OF s True assms(1)] show ?thesis by auto
  next
    case False
    then have "fftlength cfg = ANALYZER_DEFAULT_FFTLENGTH \<or> ranges cfg \<noteq> DefaultRanges" by simp
    from setConfig_not_rescaled[OF s this] show ?thesis by simp
  qed
  have "\<exists>arr1. unsigned_mem w1 DefaultRanges = Some arr1 \<and> unat (numranges cfg) \<le> length arr1"
  proof (cases "fftlength cfg \<noteq> ANALYZER_DEFAULT_FFTLENGTH")
    case True
    from setConfig_rescaled[OF s True assms(1)] Suc.prems(6,7) show ?thesis
      by (auto simp: rescale_ranges_eq split: if_splits)
  next
    case False
    then have "fftlength cfg = ANALYZER_DEFAULT_FFTLENGTH \<or> ranges cfg \<noteq> DefaultRanges" by simp
    from setConfig_not_rescaled[OF s this] Suc.prems(6,7) show ?thesis by simp
  qed
  then obtain arr1 where m1: "unsigned_mem w1 DefaultRanges = Some arr1"
    and l1: "unat (numranges cfg) \<le> length arr1" by blast
  from Suc.IH[OF i1 _ _ _ _ m1 l1] c1 s show ?case by simp
qed

lemma funpow_rescale_1024_14:
  "map (rescale_entry 1024 ^^ 14) ANALYZER_DEFAULT_RANGES_512 =
     [163840, 327680, 655360, 1310720, 2621440, 0]"
proof -
  have "(rescale_entry 1024 ^^ 14) r =
        rescale_entry 1024 (rescale_entry 1024 (rescale_entry 1024 (rescale_entry 1024
        (rescale_entry 1024 (rescale_entry 1024 (rescale_entry 1024 (rescale_entry 1024
        (rescale_entry 1024 (rescale_entry 1024 (rescale_entry 1024 (rescale_entry 1024
        (rescale_entry 1024 (rescale_entry 1024 r)))))))))))))" for r
  proof -
    have e: "(14::nat) = Suc (Suc (Suc (Suc (Suc (Suc (Suc (Suc (Suc (Suc (Suc (Suc
               (Suc (Suc 0)))))))))))))"
      by simp
    show ?thesis unfolding e by (simp only: funpow.simps o_apply id_apply)
  qed
  then show ?thesis
    by (simp add: rescale_entry_def consts_defs)
qed

text \<open>
  Claim C10 says the boundaries are scaled by \<open>(L/512)^n\<close>. Two runs from program start
  where they are not:
  \<^item> \<open>L = 1024\<close>, fifteen calls: the last boundary, 256, is 0 and not \<open>256 * 2^15\<close>,
    because \<open>2^22 * 1024\<close> wraps to 0 in 32 bits in the fifteenth call;
  \<^item> \<open>L = 768\<close>, two calls: the first boundary, 5, is 10 (5, 7, 10: every call
    truncates), while \<open>5 * (768/512)^2 = 11.25\<close>.
\<close>

theorem setConfig_compound_not_power:
  "(\<exists>a w. setConfigs (replicate 15 (defaultConfig\<lparr>fftlength := 1024\<rparr>)) blank_Analyzer start_world
            = Returned (a, w) \<and>
      unsigned_mem w DefaultRanges = Some [163840, 327680, 655360, 1310720, 2621440, 0]) \<and>
   (\<exists>a w. setConfigs (replicate 2 (defaultConfig\<lparr>fftlength := 768\<rparr>)) blank_Analyzer start_world
            = Returned (a, w) \<and>
      unsigned_mem w DefaultRanges = Some [10, 22, 45, 90, 180, 576])"
proof
  let ?c = "defaultConfig\<lparr>fftlength := 1024\<rparr>"
  let ?a1 = "blank_Analyzer
             \<lparr>Config := defaultConfig\<lparr>fftlength := 1024, fuzzfactor := 64\<rparr>,
              initialized := True, signal := Some 100, spectrum := Some 101,
              FFT := Some 102, mfcc := Some 103, yin := Some 105, Signature := Some 104,
              Bins := Some 101, Mfccs := Some 103, NumBins := 512,
              Fr := Fin (44100 / 1024), SignatureLen := 6, NumMfccCoeff := 13\<rparr>"
  let ?w1 = "start_world
             \<lparr>unsigned_mem := Map.empty(DefaultRanges \<mapsto> ANALYZER_DEFAULT_RANGES_512),
              live := [105, 104, 103, 102, 101, 100], next_addr := 106\<rparr>"
  have rc: "ranges ?c = DefaultRanges" and lc: "fftlength ?c \<noteq> ANALYZER_DEFAULT_FFTLENGTH"
    and nc: "unat (numranges ?c) = 6"
    by (simp_all add: defaultConfig_def consts_defs)
  have m1: "unsigned_mem ?w1 DefaultRanges = Some ANALYZER_DEFAULT_RANGES_512" by simp
  have "\<exists>a' w'. setConfigs (replicate 14 ?c) ?a1 ?w1 = Returned (a', w')"
    by (rule setConfigs_replicate_defined[OF rc _ _ _ _ _ m1])
       (simp_all add: defaultConfig_def consts_defs)
  then obtain a' w' where r: "setConfigs (replicate 14 ?c) ?a1 ?w1 = Returned (a', w')" by blast
  from setConfigs_replicate_rescaled[OF rc lc m1 r] nc
  have "unsigned_mem w' DefaultRanges = Some (map (rescale_entry 1024 ^^ 14) ANALYZER_DEFAULT_RANGES_512)"
    by (simp add: defaultConfig_def ANALYZER_DEFAULT_RANGES_512_def)
  then have "unsigned_mem w' DefaultRanges = Some [163840, 327680, 655360, 1310720, 2621440, 0]"
    by (simp only: funpow_rescale_1024_14)
  moreover have "setConfigs (replicate 15 ?c) blank_Analyzer start_world = Returned (a', w')"
  proof -
    have "replicate 15 ?c = ?c # replicate 14 ?c" by (simp add: eval_nat_numeral)
    then show ?thesis using setConfig_default_1024 r by simp
  qed
  ultimately show "\<exists>a w. setConfigs (replicate 15 ?c) blank_Analyzer start_world = Returned (a, w) \<and>
      unsigned_mem w DefaultRanges = Some [163840, 327680, 655360, 1310720, 2621440, 0]"
    by blast
next
  let ?c = "defaultConfig\<lparr>fftlength := 768\<rparr>"
  have s1: "setConfig ?c blank_Analyzer start_world =
     Returned (blank_Analyzer
             \<lparr>Config := defaultConfig\<lparr>fftlength := 768, fuzzfactor := 48\<rparr>,
              initialized := True, signal := Some 100, spectrum := Some 101,
              FFT := Some 102, mfcc := Some 103, yin := Some 105, Signature := Some 104,
              Bins := Some 101, Mfccs := Some 103, NumBins := 384,
              Fr := Fin (44100 / 768), SignatureLen := 6, NumMfccCoeff := 13\<rparr>,
           start_world
             \<lparr>unsigned_mem := Map.empty(DefaultRanges \<mapsto> [7, 15, 30, 60, 120, 384]),
              live := [105, 104, 103, 102, 101, 100], next_addr := 106\<rparr>)"
    by (simp add: lifecycle_defs rescale_ranges_eq consts_defs Let_def flt_of_u32_def)
  have s2: "setConfig ?c (blank_Analyzer
             \<lparr>Config := defaultConfig\<lparr>fftlength := 768, fuzzfactor := 48\<rparr>,
              initialized := True, signal := Some 100, spectrum := Some 101,
              FFT := Some 102, mfcc := Some 103, yin := Some 105, Signature := Some 104,
              Bins := Some 101, Mfccs := Some 103, NumBins := 384,
              Fr := Fin (44100 / 768), SignatureLen := 6, NumMfccCoeff := 13\<rparr>)
           (start_world
             \<lparr>unsigned_mem := Map.empty(DefaultRanges \<mapsto> [7, 15, 30, 60, 120, 384]),
              live := [105, 104, 103, 102, 101, 100], next_addr := 106\<rparr>) =
     Returned (blank_Analyzer
             \<lparr>Config := defaultConfig\<lparr>fftlength := 768, fuzzfactor := 48\<rparr>,
              initialized := True, signal := Some 100, spectrum := Some 101,
              FFT := Some 102, mfcc := Some 103, yin := Some 105, Signature := Some 104,
              Bins := Some 101, Mfccs := Some 103, NumBins := 384,
              Fr := Fin (44100 / 768), SignatureLen := 6, NumMfccCoeff := 13\<rparr>,
           start_world
             \<lparr>unsigned_mem := Map.empty(DefaultRanges \<mapsto> [10, 22, 45, 90, 180, 576]),
              live := [105, 104, 103, 102, 101, 100], next_addr := 106\<rparr>)"
    by (simp add: lifecycle_defs rescale_ranges_eq consts_defs Let_def flt_of_u32_def)
  have "replicate 2 ?c = [?c, ?c]" by (simp add: eval_nat_numeral)
  then show "\<exists>a w. setConfigs (replicate 2 ?c) blank_Analyzer start_world = Returned (a, w) \<and>
      unsigned_mem w DefaultRanges = Some [10, 22, 45, 90, 180, 576]"
    using s1 s2 by simp
qed

lemma setConfig_default_1024_again:
  "setConfig (defaultConfig\<lparr>fftlength := 1024\<rparr>)
     (blank_Analyzer
             \<lparr>Config := defaultConfig\<lparr>fftlength := 1024, fuzzfactor := 64\<rparr>,
              initialized := True, signal := Some 100, spectrum := Some 101,
              FFT := Some 102, mfcc := Some 103, yin := Some 105, Signature := Some 104,
              Bins := Some 101, Mfccs := Some 103, NumBins := 512,
              Fr := Fin (44100 / 1024), SignatureLen := 6, NumMfccCoeff := 13\<rparr>)
     (start_world
             \<lparr>unsigned_mem := Map.empty(DefaultRanges \<mapsto> ANALYZER_DEFAULT_RANGES_512),
              live := [105, 104, 103, 102, 101, 100], next_addr := 106\<rparr>) =
   Returned (blank_Analyzer
             \<lparr>Config := defaultConfig\<lparr>fftlength := 1024, fuzzfactor := 64\<rparr>,
              initialized := True, signal := Some 100, spectrum := Some 101,
              FFT := Some 102, mfcc := Some 103, yin := Some 105, Signature := Some 104,
              Bins := Some 101, Mfccs := Some 103, NumBins := 512,
              Fr := Fin (44100 / 1024), SignatureLen := 6, NumMfccCoeff := 13\<rparr>,
         start_world
             \<lparr>unsigned_mem := Map.empty(DefaultRanges \<mapsto> [20, 40, 80, 160, 320, 1024]),
              live := [105, 104, 103, 102, 101, 100], next_addr := 106\<rparr>)"
  by (simp add: lifecycle_defs rescale_ranges_eq consts_defs Let_def flt_of_u32_def)

theorem setConfig_default_ranges_compound_witness:
  "\<exists>a' w' arr'.
     setConfigs (replicate 2 (defaultConfig\<lparr>fftlength := 1024\<rparr>)) blank_Analyzer start_world
       = Returned (a', w') \<and>
     unsigned_mem w' DefaultRanges = Some arr' \<and> arr' = [20, 40, 80, 160, 320, 1024] \<and>
     arr' ! 0 = (rescale_entry 1024 ^^ 2) 5 \<and> unat (arr' ! 0) = 5 * 2 ^ 2 \<and>
     fuzzfactor (Config a') = 64 \<and>
     unsigned_mem w' (ranges defaultConfig) = Some arr' \<and>
     unsigned_mem w' (ranges (Config (blank_Analyzer\<lparr>Config := defaultConfig\<rparr>))) = Some arr'"
proof -
  let ?c = "defaultConfig\<lparr>fftlength := 1024\<rparr>"
  let ?b = "blank_Analyzer\<lparr>Config := defaultConfig\<rparr>"
  let ?a' = "blank_Analyzer
             \<lparr>Config := defaultConfig\<lparr>fftlength := 1024, fuzzfactor := 64\<rparr>,
              initialized := True, signal := Some 100, spectrum := Some 101,
              FFT := Some 102, mfcc := Some 103, yin := Some 105, Signature := Some 104,
              Bins := Some 101, Mfccs := Some 103, NumBins := 512,
              Fr := Fin (44100 / 1024), SignatureLen := 6, NumMfccCoeff := 13\<rparr>"
  let ?w' = "start_world
             \<lparr>unsigned_mem := Map.empty(DefaultRanges \<mapsto> [20, 40, 80, 160, 320, 1024]),
              live := [105, 104, 103, 102, 101, 100], next_addr := 106\<rparr>"
  have rc: "ranges ?c = DefaultRanges" and lc: "fftlength ?c \<noteq> ANALYZER_DEFAULT_FFTLENGTH"
    and l: "fftlength ?c = 1024" and nc: "unat (numranges ?c) = 6"
    and rb: "ranges (Config ?b) = DefaultRanges" and rd: "ranges defaultConfig = DefaultRanges"
    by (simp_all add: defaultConfig_def consts_defs)
  have m: "unsigned_mem start_world DefaultRanges = Some [5, 10, 20, 40, 80, 256]"
    by (simp add: start_world_def consts_defs)
  have "replicate 2 ?c = [?c, ?c]" by (simp add: eval_nat_numeral)
  then have s: "setConfigs (replicate 2 ?c) blank_Analyzer start_world = Returned (?a', ?w')"
    using setConfig_default_1024 setConfig_default_1024_again by simp
  from setConfig_default_ranges_compound[OF rc lc m s, of ?b]
  obtain arr' where
    a1: "unsigned_mem ?w' DefaultRanges = Some arr'"
    and a0: "length arr' = length [5, 10, 20, 40, 80, 256 :: u32]"
    and a2: "\<forall>i. i < length [5, 10, 20, 40, 80, 256 :: u32] \<longrightarrow>
                arr' ! i = (if i < unat (numranges ?c)
                            then (rescale_entry (fftlength ?c) ^^ 2) ([5, 10, 20, 40, 80, 256] ! i)
                            else [5, 10, 20, 40, 80, 256] ! i)"
    and a3: "\<forall>i k. i < unat (numranges ?c) \<and> i < length [5, 10, 20, 40, 80, 256 :: u32] \<and>
                  unat (fftlength ?c) = 512 * k \<and>
                  512 * unat ([5, 10, 20, 40, 80, 256 :: u32] ! i) * k ^ 2 < 2 ^ 32 \<longrightarrow>
                  unat (arr' ! i) = unat ([5, 10, 20, 40, 80, 256 :: u32] ! i) * k ^ 2"
    and a4: "(0::nat) < 2 \<longrightarrow> fuzzfactor (Config ?a') =
                          ANALYZER_DEFAULT_FUZZFACTOR * fftlength ?c div ANALYZER_DEFAULT_FFTLENGTH"
    and a5: "unsigned_mem ?w' (ranges defaultConfig) = Some arr'"
    and a6: "ranges (Config ?b) = DefaultRanges \<longrightarrow> unsigned_mem ?w' (ranges (Config ?b)) = Some arr'"
    by (elim exE conjE) (rule that)
  from a1 have e: "arr' = [20, 40, 80, 160, 320, 1024]" by simp
  from a2[rule_format, of 0] nc l have b2: "arr' ! 0 = (rescale_entry 1024 ^^ 2) 5" by simp
  from a3[rule_format, of 0 2] nc l have b3: "unat (arr' ! 0) = 5 * 2 ^ 2" by simp
  from a4 have b4: "fuzzfactor (Config ?a') = 64" by (simp add: consts_defs)
  from a6 rb have b6: "unsigned_mem ?w' (ranges (Config ?b)) = Some arr'" by simp
  show ?thesis
    apply (rule exI[of _ ?a'], rule exI[of _ ?w'], rule exI[of _ arr'])
    using s a1 e b2 b3 b4 a5 b6 by simp
qed


section \<open>Properties of the fingerprint hash\<close>

declare signatureHash.simps [simp del]

lemma signatureHash_foldr:
  assumes "fuzz \<noteq> 0" and "nr \<le> length sig" and "off \<le> nr"
  shows "signatureHash fuzz sig nr off = Some (spec_hash fuzz (drop off (take nr sig)))"
  using assms(3)
proof (induction "nr - off" arbitrary: off)
  case 0
  then have "off = nr" by simp
  then show ?case
    by (simp add: signatureHash.simps[of fuzz sig nr nr] spec_hash_def)
next
  case (Suc d)
  then have lt: "off < nr" and d: "d = nr - (off + 1)" and le: "off + 1 \<le> nr" by simp_all
  from Suc.hyps(1)[OF d le]
  have ih: "signatureHash fuzz sig nr (off + 1) =
              Some (spec_hash fuzz (drop (off + 1) (take nr sig)))" .
  from lt assms(2) have "off < length (take nr sig)" by simp
  then have "drop off (take nr sig) = (take nr sig ! off) # drop (Suc off) (take nr sig)"
    by (rule Cons_nth_drop_Suc[symmetric])
  also have "take nr sig ! off = sig ! off" using lt by simp
  finally have dr: "drop off (take nr sig) = sig ! off # drop (off + 1) (take nr sig)" by simp
  from lt assms(1,2) ih show ?case
    by (simp add: signatureHash.simps[of fuzz sig nr off] dr spec_hash_def fuzz_quantized_def)
qed

lemma unat_ucast_signature: "unat (ucast (v :: signature_t) :: u32) = unat v"
proof -
  have "unat v < 2 ^ 16" using unsigned_less[of v] by simp
  then have "unat v < 2 ^ 32" by simp
  then show ?thesis by (simp add: unsigned_ucast_eq take_bit_nat_eq_self)
qed

lemma fuzz_quantized_bucket: "fuzz_quantized f v = (ucast v div f) * f"
proof -
  have "a - a mod f = a div f * f" for a :: u32
  proof -
    have "a div f * f + a mod f - a mod f = a div f * f" by (rule add_diff_cancel_right')
    then show ?thesis by (simp only: div_mult_mod_eq)
  qed
  then show ?thesis by (simp add: fuzz_quantized_def)
qed

lemma fuzz_quantized_same_bucket:
  assumes "unat v div unat f = unat v' div unat f"
  shows "fuzz_quantized f v = fuzz_quantized f v'"
proof -
  have "unat ((ucast v :: u32) div f) = unat ((ucast v' :: u32) div f)"
    using assms by (simp add: unat_div unat_ucast_signature)
  then have "(ucast v :: u32) div f = ucast v' div f" by (rule word_unat_eq_iff[THEN iffD2])
  then show ?thesis by (simp add: fuzz_quantized_bucket)
qed

text \<open>
  Claim C6 says that moving one value by less than the fuzz factor leaves its quantized
  contribution alone. The quantization is a floor to a multiple of the fuzz factor, so a
  move across a multiple changes it: with fuzz factor 32, the values 31 and 32 differ by
  1 and contribute 0 and 32, and the hashes of the one-element signatures differ.
\<close>

theorem signatureHash_fuzz_boundary:
  "ucast (31 :: signature_t) - (ucast (31 :: signature_t) mod 32) = (0 :: u32) \<and>
   ucast (32 :: signature_t) - (ucast (32 :: signature_t) mod 32) = (32 :: u32) \<and>
   signatureHash 32 [31] 1 0 = Some 177573 \<and>
   signatureHash 32 [32] 1 0 = Some 177541"
proof -
  have "signatureHash 32 [31] 1 0 = Some 177573" by code_simp
  moreover have "signatureHash 32 [32] 1 0 = Some 177541" by code_simp
  ultimately show ?thesis by simp
qed

text \<open>
  Claim C6, amended. For a non-zero fuzz factor and a signature of at least \<open>nr\<close>
  entries:
  \<^item> the hash is the accumulation of the specification (seed 5381, times 33, exclusive
    or with \<open>value - (value mod fuzzFactor)\<close>, from right to left) over the first \<open>nr\<close>
    entries;
  \<^item> it is determined by these entries: signatures that agree on them hash alike;
  \<^item> replacing the value at a position by one of the same bucket (the same quotient by
    the fuzz factor) changes neither its quantized contribution nor the hash.
\<close>

theorem signatureHash_fuzz_bucket:
  assumes "fuzz \<noteq> 0" and "nr \<le> length sig"
  shows "signatureHash fuzz sig nr 0 = Some (spec_hash fuzz (take nr sig)) \<and>
         (\<forall>sig'. take nr sig' = take nr sig \<and> nr \<le> length sig' \<longrightarrow>
                 signatureHash fuzz sig' nr 0 = signatureHash fuzz sig nr 0) \<and>
         (\<forall>i v. i < nr \<and> unat v div unat fuzz = unat (sig ! i) div unat fuzz \<longrightarrow>
                 ucast v - (ucast v mod fuzz) = ucast (sig ! i) - (ucast (sig ! i) mod fuzz) \<and>
                 signatureHash fuzz (sig[i := v]) nr 0 = signatureHash fuzz sig nr 0)"
proof (intro conjI allI impI)
  show h: "signatureHash fuzz sig nr 0 = Some (spec_hash fuzz (take nr sig))"
    using signatureHash_foldr[OF assms, of 0] by simp
  show "signatureHash fuzz sig' nr 0 = signatureHash fuzz sig nr 0"
    if "take nr sig' = take nr sig \<and> nr \<le> length sig'" for sig'
    using that h signatureHash_foldr[OF assms(1), of nr sig' 0] by simp
  fix i and v :: signature_t
  assume a: "i < nr \<and> unat v div unat fuzz = unat (sig ! i) div unat fuzz"
  then have "unat v div unat fuzz = unat (sig ! i) div unat fuzz" ..
  then have q: "fuzz_quantized fuzz v = fuzz_quantized fuzz (sig ! i)"
    by (rule fuzz_quantized_same_bucket)
  then show "ucast v - (ucast v mod fuzz) = ucast (sig ! i) - (ucast (sig ! i) mod fuzz)"
    by (simp add: fuzz_quantized_def)
  from a assms(2) have i: "i < length sig" by simp
  have "map (fuzz_quantized fuzz) (take nr (sig[i := v])) = map (fuzz_quantized fuzz) (take nr sig)"
  proof (rule nth_equalityI)
    show "length (map (fuzz_quantized fuzz) (take nr (sig[i := v]))) =
          length (map (fuzz_quantized fuzz) (take nr sig))" by simp
  next
    fix j
    assume "j < length (map (fuzz_quantized fuzz) (take nr (sig[i := v])))"
    then have j: "j < nr" "j < length sig" by simp_all
    show "map (fuzz_quantized fuzz) (take nr (sig[i := v])) ! j =
          map (fuzz_quantized fuzz) (take nr sig) ! j"
      using j i q by (cases "j = i") simp_all
  qed
  moreover have "spec_hash fuzz xs = foldr (\<lambda>q h. (h * 33) XOR q) (map (fuzz_quantized fuzz) xs) 5381"
    for xs
    by (simp add: spec_hash_def foldr_map comp_def)
  ultimately have "spec_hash fuzz (take nr (sig[i := v])) = spec_hash fuzz (take nr sig)"
    by simp
  moreover have "signatureHash fuzz (sig[i := v]) nr 0 = Some (spec_hash fuzz (take nr (sig[i := v])))"
    using signatureHash_foldr[OF assms(1), of nr "sig[i := v]" 0] assms(2) by simp
  ultimately show "signatureHash fuzz (sig[i := v]) nr 0 = signatureHash fuzz sig nr 0"
    using h by simp
qed

theorem signatureHash_fuzz_bucket_witness:
  "signatureHash 32 [100, 200, 300] 3 0 = Some (spec_hash 32 [100, 200, 300]) \<and>
   signatureHash 32 [100, 200, 300, 7] 3 0 = signatureHash 32 [100, 200, 300] 3 0 \<and>
   ucast (220 :: signature_t) - (ucast (220 :: signature_t) mod (32 :: u32)) =
     ucast (200 :: signature_t) - (ucast (200 :: signature_t) mod 32) \<and>
   signatureHash 32 [100, 220, 300] 3 0 = signatureHash 32 [100, 200, 300] 3 0"
proof -
  have f: "(32 :: u32) \<noteq> 0" by simp
  have l: "(3 :: nat) \<le> length [100, 200, 300 :: signature_t]" by simp
  note t = signatureHash_fuzz_bucket[OF f l]
  have 1: "signatureHash 32 [100, 200, 300] 3 0 = Some (spec_hash 32 (take 3 [100, 200, 300]))"
    by (rule t[THEN conjunct1])
  have p2: "take 3 [100, 200, 300, 7 :: signature_t] = take 3 [100, 200, 300] \<and>
                 3 \<le> length [100, 200, 300, 7 :: signature_t]"
    by simp
  have 2: "signatureHash 32 [100, 200, 300, 7] 3 0 = signatureHash 32 [100, 200, 300] 3 0"
    by (rule t[THEN conjunct2, THEN conjunct1, rule_format, OF p2])
  have p3: "(1::nat) < 3 \<and> unat (220 :: signature_t) div unat (32 :: u32) =
                  unat ([100, 200, 300 :: signature_t] ! 1) div unat (32 :: u32)"
    by simp
  note 3 = t[THEN conjunct2, THEN conjunct2, rule_format, OF p3]
  have 4: "ucast (220 :: signature_t) - (ucast (220 :: signature_t) mod (32 :: u32)) =
        ucast (200 :: signature_t) - (ucast (200 :: signature_t) mod 32)"
    using 3[THEN conjunct1] by simp
  have 5: "signatureHash 32 [100, 220, 300] 3 0 = signatureHash 32 [100, 200, 300] 3 0"
    using 3[THEN conjunct2] by simp
  have 6: "take 3 [100, 200, 300 :: signature_t] = [100, 200, 300]" by simp
  show ?thesis
    using 1 2 4 5 unfolding 6 by (intro conjI)
qed


section \<open>Properties of the spectral statistics\<close>

lemma upt_from_1_Suc: "1 \<le> n \<Longrightarrow> [1..<Suc n] = [1..<n] @ [n]"
  by simp

lemma features_sums_step_zero:
  assumes "bins ! i = Fin 0"
  shows "features_sums_step a bins i (features_sums_init\<lparr>sumfVal := Fin k\<rparr>) =
         features_sums_init\<lparr>sumfVal := Fin (k + 1)\<rparr>"
  using assms
  by (simp add: features_sums_step_def features_sums_init_def Let_def sq_def flt_greater_def
      flt_of_nat_def)

lemma features_sums_all_zero:
  assumes "\<forall>i. 1 \<le> i \<and> i < N \<longrightarrow> bins ! i = Fin 0" and "0 < N"
  shows "fold (features_sums_step a bins) [1..<N] features_sums_init =
         features_sums_init\<lparr>sumfVal := Fin (real (N - 1))\<rparr>"
  using assms
proof (induction N)
  case 0
  then show ?case by simp
next
  case (Suc n)
  show ?case
  proof (cases "n = 0")
    case True
    then show ?thesis by (simp add: features_sums_init_def)
  next
    case False
    then have n: "1 \<le> n" "0 < n" by simp_all
    from Suc.prems(1) have "\<forall>i. 1 \<le> i \<and> i < n \<longrightarrow> bins ! i = Fin 0" by simp
    from Suc.IH[OF this n(2)]
    have ih: "fold (features_sums_step a bins) [1..<n] features_sums_init =
              features_sums_init\<lparr>sumfVal := Fin (real (n - 1))\<rparr>" .
    from Suc.prems(1) n have z: "bins ! n = Fin 0" by simp
    have "real (n - 1) + 1 = real (Suc n - 1)" using n by simp
    then show ?thesis
      by (simp only: upt_from_1_Suc[OF n(1)] fold_append o_apply ih fold.simps id_apply
          features_sums_step_zero[OF z])
  qed
qed

lemma flt_less_zero_threshold:
  "\<not> flt_less (fmul p (Fin 0)) (Fin 0)"
  by (cases p) simp_all

lemma features_moments_step_zero:
  assumes "bins ! i = Fin 0"
  shows "features_moments_step bins N (Fin 0) (Fin 0) (fmul p (Fin 0)) i features_moments_init =
         features_moments_init"
  using assms flt_less_zero_threshold[of p]
  by (simp add: features_moments_step_def features_moments_init_def Let_def sq_def
      flt_greater_def flt_of_nat_def fpow2_def fpow3_def fsub_def)

lemma features_moments_all_zero:
  assumes "\<forall>i. 1 \<le> i \<and> i < N \<longrightarrow> bins ! i = Fin 0"
  shows "fold (features_moments_step bins M (Fin 0) (Fin 0) (fmul p (Fin 0))) [1..<N]
           features_moments_init = features_moments_init"
  using assms
proof (induction N)
  case 0
  then show ?case by simp
next
  case (Suc n)
  show ?case
  proof (cases "n = 0")
    case True
    then show ?thesis by simp
  next
    case False
    then have n: "1 \<le> n" by simp
    from Suc.prems have "\<forall>i. 1 \<le> i \<and> i < n \<longrightarrow> bins ! i = Fin 0" by simp
    from Suc.IH[OF this]
    have ih: "fold (features_moments_step bins M (Fin 0) (Fin 0) (fmul p (Fin 0))) [1..<n]
                features_moments_init = features_moments_init" .
    from Suc.prems n have z: "bins ! n = Fin 0" by simp
    show ?thesis
      by (simp only: upt_from_1_Suc[OF n] fold_append o_apply ih fold.simps id_apply
          features_moments_step_zero[OF z])
  qed
qed

text \<open>
  Claim C5. On a spectrum of \<open>N \<ge> 1\<close> bins (it has a bin 0, which is never read) whose
  bins \<open>1 .. N - 1\<close> are all zero, \<open>getFeatures\<close> returns with average magnitude 0, crest
  1, kurtosis -3 and rolloff 0, whatever bin 0 and the rolloff percentile are. On these
  inputs every operation of the source is exact, so the model's exact arithmetic is the
  program's.
\<close>

theorem getFeatures_all_zero_spectrum:
  assumes "bins = (case Spectrum of Some sp \<Rightarrow> sp | None \<Rightarrow> spectrum_contents a)"
    and "N = (if len = 0 then unat (NumBins a) else unat len)"
    and "0 < N" and "N \<le> length bins"
    and "\<forall>i. 1 \<le> i \<and> i < N \<longrightarrow> bins ! i = Fin 0"
    and "length (Features a) = ANALYZER_NUMFEATURES"
  shows "\<exists>F a'. getFeatures a Spectrum len = Some (F, a') \<and> Features a' = F \<and>
           F ! feature_index Favgmag = Fin 0 \<and>
           F ! feature_index Fcrest = Fin 1 \<and>
           F ! feature_index Fkurtosis = Fin (- 3) \<and>
           F ! feature_index Frolloff = Fin 0"
proof -
  have s: "fold (features_sums_step a bins) [1..<N] features_sums_init =
           features_sums_init\<lparr>sumfVal := Fin (real (N - 1))\<rparr>"
    by (rule features_sums_all_zero[OF assms(5,3)])
  have m: "fold (features_moments_step bins N (Fin 0) (Fin 0)
                   (fmul (roloffpercentile (Config a)) (Fin 0))) [1..<N]
             features_moments_init = features_moments_init"
    by (rule features_moments_all_zero[OF assms(5)])
  have N: "real N \<noteq> 0" using assms(3) by simp
  have l: "\<not> length bins < N" using assms(4) by simp
  have sel: "sumAmplitudes features_sums_init = Fin 0" "sumcVal features_sums_init = Fin 0"
    "sumWeightedAmplitudes features_sums_init = Fin 0"
    "moment2 features_moments_init = Fin 0" "rolloff features_moments_init = Fin 0"
    by (simp_all add: features_sums_init_def features_moments_init_def)
  show ?thesis
    unfolding getFeatures_def assms(1)[symmetric] assms(2)[symmetric]
    using l N assms(6)
    by (simp add: Let_def s[unfolded One_nat_def] m[unfolded One_nat_def] sel
        flt_of_nat_def flt_greater_def ANALYZER_NUMFEATURES_def)
qed

theorem getFeatures_all_zero_spectrum_witness:
  "\<exists>F a'. getFeatures (blank_Analyzer\<lparr>NumBins := 4\<rparr>) (Some [Fin 7, Fin 0, Fin 0, Fin 0]) 0
             = Some (F, a') \<and> Features a' = F \<and>
           F ! feature_index Favgmag = Fin 0 \<and>
           F ! feature_index Fcrest = Fin 1 \<and>
           F ! feature_index Fkurtosis = Fin (- 3) \<and>
           F ! feature_index Frolloff = Fin 0"
proof -
  let ?bins = "[Fin 7, Fin 0, Fin 0, Fin 0]"
  let ?a = "blank_Analyzer\<lparr>NumBins := 4\<rparr>"
  have 1: "?bins = (case Some ?bins of Some sp \<Rightarrow> sp | None \<Rightarrow> spectrum_contents ?a)"
    by simp
  have 2: "(4::nat) = (if (0::u32) = 0 then unat (NumBins ?a) else unat (0::u32))"
    by simp
  have 3: "(0::nat) < 4" by simp
  have 4: "(4::nat) \<le> length ?bins" by simp
  have 5: "\<forall>i. 1 \<le> i \<and> i < (4::nat) \<longrightarrow> ?bins ! i = Fin 0"
  proof (intro allI impI)
    fix i :: nat
    assume "1 \<le> i \<and> i < 4"
    then have "i = 1 \<or> i = 2 \<or> i = 3" by auto
    then show "?bins ! i = Fin 0" by auto
  qed
  have 6: "length (Features ?a) = ANALYZER_NUMFEATURES"
    by (simp add: blank_Analyzer_def ANALYZER_NUMFEATURES_def)
  show ?thesis
    by (rule getFeatures_all_zero_spectrum[OF 1 2 3 4 5 6])
qed


section \<open>Properties of the fingerprint generator\<close>

declare rangeIndex_from.simps [simp del]









lemma getSignature_scan_None: "fold (getSignature_scan ar a rs n bins) xs None = None"
  by (induction xs) (simp_all add: getSignature_scan_def)















section \<open>Properties of the pitch estimator\<close>

declare getPeriodCandidate_loop.simps [simp del]

lemmas exact_ops = add32_def sub32_def mul32_def div32_def add64_def mul64_def div64_def
  to32_def nat_to32_def int_to32_def
  exact_arith_def[THEN arg_cong, of rnd32] exact_arith_def[THEN arg_cong, of rnd64]

lemma YIN_new_fields:
  "prevPeriodEstimate (YIN_new ar f n) = Fin 1" "fs (YIN_new ar f n) = int f"
  "framesz (YIN_new ar f n) = n" "delta (YIN_new ar f n) = replicate (n div 2) (Fin 0)"
  by (simp_all add: YIN_new_def setMaxFrequency_def Let_def)

text \<open>Two first calls on a frame of 8 samples at 8000 Hz, in the arithmetic that does
  not round (every value of the first run is a small dyadic number, which no binary format
  rounds).\<close>

lemma cmndf_example:
  "cumulativeMeanNormalisedDifferenceFunction exact_arith (YIN_new exact_arith 8000 8)
     [Fin 0, Fin 0, Fin 1, Fin 0, Fin 1, Fin 0, Fin 0, Fin 0] =
   [Fin 1, Fin 1, Fin (1 / 2), Fin 1]"
proof -
  have u: "[0..<4] = [0, 1, 2, 3]" by (simp add: upt_rec)
  have r: "replicate 4 (Fin 0) = [Fin 0, Fin 0, Fin 0, Fin 0]" by (simp add: eval_nat_numeral)
  show ?thesis
    by (simp add: cumulativeMeanNormalisedDifferenceFunction_def YIN_new_fields
        cmndf_step_def difference_sum_def Let_def u r fsub_def flt_greater_def exact_ops)
qed

lemma search_example:
  "searchForOtherRecentMinima
     (YIN_new exact_arith 8000 8\<lparr>delta := [Fin 1, Fin 1, Fin (1 / 2), Fin 1]\<rparr>)
     [Fin 1, Fin 1, Fin (1 / 2), Fin 1] = Some 2"
  by (simp add: searchForOtherRecentMinima_def YIN_new_fields flt_to_int_def
      recentMinimum_at_def)

lemma pitchYin_example:
  "pitchYin exact_arith (YIN_new exact_arith 8000 8)
     [Fin 0, Fin 0, Fin 1, Fin 0, Fin 1, Fin 0, Fin 0, Fin 0] =
     Some (Fin 4000,
           YIN_new exact_arith 8000 8\<lparr>delta := [Fin 1, Fin 1, Fin (1 / 2), Fin 1],
                                       prevPeriodEstimate := Fin 2\<rparr>)"
  by (simp add: pitchYin_def Let_def cmndf_example search_example YIN_new_fields
      parabolicInterpolation_def periodToPitch_def fsub_def exact_ops)

lemma cmndf_example_refined:
  "cumulativeMeanNormalisedDifferenceFunction exact_arith (YIN_new exact_arith 8000 8)
     [Fin 0, Fin 0, Fin 0, Fin 0, Fin 0, Fin 1, Fin 1, Fin 0] =
   [Fin 1, Fin 0, Fin 2, Fin 2]"
proof -
  have u: "[0..<4] = [0, 1, 2, 3]" by (simp add: upt_rec)
  have r: "replicate 4 (Fin 0) = [Fin 0, Fin 0, Fin 0, Fin 0]" by (simp add: eval_nat_numeral)
  show ?thesis
    by (simp add: cumulativeMeanNormalisedDifferenceFunction_def YIN_new_fields
        cmndf_step_def difference_sum_def Let_def u r fsub_def flt_greater_def exact_ops)
qed

lemma search_example_refined:
  "searchForOtherRecentMinima
     (YIN_new exact_arith 8000 8\<lparr>delta := [Fin 1, Fin 0, Fin 2, Fin 2]\<rparr>)
     [Fin 1, Fin 0, Fin 2, Fin 2] = Some 1"
  by (simp add: searchForOtherRecentMinima_def YIN_new_fields flt_to_int_def
      recentMinimum_at_def)

lemma pitchYin_example_refined:
  "pitchYin exact_arith (YIN_new exact_arith 8000 8)
     [Fin 0, Fin 0, Fin 0, Fin 0, Fin 0, Fin 1, Fin 1, Fin 0] =
     Some (Fin 9600,
           YIN_new exact_arith 8000 8\<lparr>delta := [Fin 1, Fin 0, Fin 2, Fin 2],
                                       prevPeriodEstimate := Fin (5 / 6)\<rparr>)"
  by (simp add: pitchYin_def Let_def cmndf_example_refined search_example_refined
      YIN_new_fields parabolicInterpolation_def periodToPitch_def fsub_def exact_ops)

text \<open>
  Claim C8 says the interpolation gives the unrefined lag exactly when the three values
  are equal. It gives it in other cases too: when the two neighbours are equal the
  correction \<open>(y3 - y1) / (2 (2 y2 - y3 - y1))\<close> is 0. A first call on the frame
  \<open>0 0 1 0 1 0 0 0\<close> (frame size 8, 8000 Hz): the difference function is
  \<open>1, 1, 1/2, 1\<close>, the continuity search chooses the lag 2, which is interior, the three
  values \<open>1, 1/2, 1\<close> are not all equal, and the refined lag is 2 again, although the
  interpolation does move the lag when the neighbours differ (to \<open>7/4\<close> on \<open>1, 1/2, 2\<close>).
\<close>

theorem parabolicInterpolation_equal_neighbours:
  "pitchYin exact_arith (YIN_new exact_arith 8000 8)
     [Fin 0, Fin 0, Fin 1, Fin 0, Fin 1, Fin 0, Fin 0, Fin 0] =
     Some (Fin 4000,
           YIN_new exact_arith 8000 8\<lparr>delta := [Fin 1, Fin 1, Fin (1 / 2), Fin 1],
                                       prevPeriodEstimate := Fin 2\<rparr>) \<and>
   searchForOtherRecentMinima
     (YIN_new exact_arith 8000 8\<lparr>delta := [Fin 1, Fin 1, Fin (1 / 2), Fin 1]\<rparr>)
     [Fin 1, Fin 1, Fin (1 / 2), Fin 1] = Some 2 \<and>
   parabolicInterpolation exact_arith 2 (Fin 1) (Fin (1 / 2)) (Fin 1) = Fin 2 \<and>
   \<not> (flt_eq (Fin 1) (Fin (1 / 2)) \<and> flt_eq (Fin (1 / 2)) (Fin 1)) \<and>
   parabolicInterpolation exact_arith 2 (Fin 1) (Fin (1 / 2)) (Fin 2) = Fin (7 / 4)"
  by (simp add: pitchYin_example search_example parabolicInterpolation_def fsub_def exact_ops)

text \<open>
  Claim C8, amended. For a call of \<open>pitchYin\<close> that returns, with \<open>d\<close> the difference
  function of the frame and \<open>period\<close> the chosen lag (the continuity minimum, or else
  the period candidate), in every rounding:
  \<^item> if \<open>period\<close> is strictly interior (\<open>0 < period < framesz/2 - 1\<close>), then with
    \<open>y1 = d[period - 1]\<close>, \<open>y2 = d[period]\<close>, \<open>y3 = d[period + 1]\<close> the refined lag is
    \<open>period\<close> when the three values are equal (in the sense of \<open>==\<close>) and
    \<open>period + (y3 - y1) / (2 (2 y2 - y3 - y1))\<close> as the machine computes it when they are
    not; a lag that is not interior is kept as it is;
  \<^item> the frequency returned is \<open>fs\<close> divided by the refined lag, and the refined lag is
    stored in \<open>prevPeriodEstimate\<close>, from which the next call's continuity search takes
    its three candidates;
  \<^item> where no operation rounds and the three values \<open>a\<close>, \<open>b\<close>, \<open>c\<close> are finite with
    \<open>a + c \<noteq> 2 b\<close>, the refined lag \<open>x\<close> is the vertex of the parabola through
    \<open>(period - 1, a)\<close>, \<open>(period, b)\<close>, \<open>(period + 1, c)\<close>, the point where its derivative
    \<open>(c - a) / 2 + (a + c - 2 b) (x - period)\<close> is 0; so it is \<open>period\<close> itself as soon as
    the two neighbours are equal, whatever the middle value.
\<close>

theorem pitchYin_refined_lag:
  assumes "pitchYin ar y frame = Some (f, y')"
  shows "\<exists>d continuityPeriod period fPeriod.
     d = cumulativeMeanNormalisedDifferenceFunction ar y frame \<and>
     searchForOtherRecentMinima (y\<lparr>delta := d\<rparr>) d = Some continuityPeriod \<and>
     period = (if continuityPeriod = - 1 then getPeriodCandidate ar (y\<lparr>delta := d\<rparr>) d
               else nat continuityPeriod) \<and>
     fPeriod =
       (if 0 < period \<and> period < framesz y div 2 - 1
        then (if flt_eq (d ! (period + 1)) (d ! period) \<and> flt_eq (d ! period) (d ! (period - 1))
              then nat_to32 ar period
              else to32 ar
                     (add64 ar (nat_to32 ar period)
                        (div64 ar (sub32 ar (d ! (period + 1)) (d ! (period - 1)))
                           (mul64 ar (Fin 2)
                              (sub32 ar (sub32 ar (mul32 ar (Fin 2) (d ! period))
                                           (d ! (period + 1)))
                                 (d ! (period - 1)))))))
        else nat_to32 ar period) \<and>
     f = div32 ar (int_to32 ar (fs y)) fPeriod \<and>
     prevPeriodEstimate y' = fPeriod \<and> delta y' = d \<and> fs y' = fs y \<and> framesz y' = framesz y \<and>
     (\<forall>d2. searchForOtherRecentMinima y' d2 =
          (case flt_to_int (fround fPeriod) of None \<Rightarrow> None
           | Some prevEst \<Rightarrow>
               if prevEst - 1 < - (2 ^ 31) \<or> 2 ^ 31 \<le> prevEst + 1 then None
               else Some (fold (recentMinimum_at y' d2) [prevEst - 1, prevEst, prevEst + 1] (- 1)))) \<and>
     (rnd32 ar = Fin \<and> rnd64 ar = Fin \<and> 0 < period \<and> period < framesz y div 2 - 1 \<longrightarrow>
        (\<forall>a b c. d ! (period - 1) = Fin a \<and> d ! period = Fin b \<and> d ! (period + 1) = Fin c \<and>
                 a + c \<noteq> 2 * b \<longrightarrow>
           (\<exists>x. fPeriod = Fin x \<and>
                (c - a) / 2 + (a + c - 2 * b) * (x - real period) = 0 \<and>
                (a = c \<longrightarrow> x = real period))))"
proof -
  let ?d = "cumulativeMeanNormalisedDifferenceFunction ar y frame"
  from assms obtain cp where cp: "searchForOtherRecentMinima (y\<lparr>delta := ?d\<rparr>) ?d = Some cp"
    by (auto simp: pitchYin_def Let_def split: if_splits option.splits)
  let ?period = "if cp = - 1 then getPeriodCandidate ar (y\<lparr>delta := ?d\<rparr>) ?d else nat cp"
  define period where "period = ?period"
  let ?fP = "if 0 < period \<and> period < framesz y div 2 - 1
        then (if flt_eq (?d ! (period + 1)) (?d ! period) \<and> flt_eq (?d ! period) (?d ! (period - 1))
              then nat_to32 ar period
              else to32 ar
                     (add64 ar (nat_to32 ar period)
                        (div64 ar (sub32 ar (?d ! (period + 1)) (?d ! (period - 1)))
                           (mul64 ar (Fin 2)
                              (sub32 ar (sub32 ar (mul32 ar (Fin 2) (?d ! period))
                                           (?d ! (period + 1)))
                                 (?d ! (period - 1)))))))
        else nat_to32 ar period"
  define fPeriod where "fPeriod = ?fP"
  from assms cp have f: "f = div32 ar (int_to32 ar (fs y)) fPeriod"
    and y': "y' = y\<lparr>delta := ?d, prevPeriodEstimate := fPeriod\<rparr>"
    by (auto simp: pitchYin_def Let_def periodToPitch_def parabolicInterpolation_def
        fPeriod_def period_def split: if_splits)
  from y' have p: "prevPeriodEstimate y' = fPeriod" and dl: "delta y' = ?d"
    and fsy: "fs y' = fs y" and fz: "framesz y' = framesz y"
    by simp_all
  have nxt: "\<forall>d2. searchForOtherRecentMinima y' d2 =
          (case flt_to_int (fround fPeriod) of None \<Rightarrow> None
           | Some prevEst \<Rightarrow>
               if prevEst - 1 < - (2 ^ 31) \<or> 2 ^ 31 \<le> prevEst + 1 then None
               else Some (fold (recentMinimum_at y' d2) [prevEst - 1, prevEst, prevEst + 1] (- 1)))"
    unfolding searchForOtherRecentMinima_def p by blast
  have vertex: "rnd32 ar = Fin \<and> rnd64 ar = Fin \<and> 0 < period \<and> period < framesz y div 2 - 1 \<longrightarrow>
        (\<forall>a b c. ?d ! (period - 1) = Fin a \<and> ?d ! period = Fin b \<and> ?d ! (period + 1) = Fin c \<and>
                 a + c \<noteq> 2 * b \<longrightarrow>
           (\<exists>x. fPeriod = Fin x \<and>
                (c - a) / 2 + (a + c - 2 * b) * (x - real period) = 0 \<and>
                (a = c \<longrightarrow> x = real period)))"
  proof (intro impI allI)
    fix a b c :: real
    assume r: "rnd32 ar = Fin \<and> rnd64 ar = Fin \<and> 0 < period \<and> period < framesz y div 2 - 1"
      and v: "?d ! (period - 1) = Fin a \<and> ?d ! period = Fin b \<and> ?d ! (period + 1) = Fin c \<and>
              a + c \<noteq> 2 * b"
    from v have ne: "\<not> (c = b \<and> b = a)" by auto
    from v have nz: "2 * (2 * b - c - a) \<noteq> 0" by auto
    let ?x = "real period + (c - a) / (2 * (2 * b - c - a))"
    from r v ne nz have "fPeriod = Fin ?x"
      by (simp add: fPeriod_def add32_def sub32_def mul32_def add64_def mul64_def div64_def
          to32_def nat_to32_def fsub_def)
    moreover have "(c - a) / 2 + (a + c - 2 * b) * (?x - real period) = 0"
    proof -
      from nz have "2 * b - c - a \<noteq> 0" by simp
      then have "(a + c - 2 * b) * ((c - a) / (2 * (2 * b - c - a))) = - ((c - a) / 2)"
        by (simp add: field_simps)
      then show ?thesis by simp
    qed
    moreover have "a = c \<longrightarrow> ?x = real period" by simp
    ultimately show "\<exists>x. fPeriod = Fin x \<and>
                (c - a) / 2 + (a + c - 2 * b) * (x - real period) = 0 \<and>
                (a = c \<longrightarrow> x = real period)"
      by blast
  qed
  show ?thesis
    apply (rule exI[of _ ?d], rule exI[of _ cp], rule exI[of _ period], rule exI[of _ fPeriod])
    apply (intro conjI refl cp f p dl fsy fz nxt vertex)
     apply (simp add: period_def)
    apply (simp add: fPeriod_def)
    done
qed

text \<open>The call returns whenever the buffers have their sizes and the previous estimate
  rounds to a \<open>long\<close> with room for its two neighbours.\<close>

lemma pitchYin_defined:
  assumes "framesz y \<le> length frame" and "length (delta y) = framesz y div 2"
    and "0 < framesz y div 2"
    and "flt_to_int (fround (prevPeriodEstimate y)) = Some e"
    and "- (2 ^ 31) \<le> e - 1" and "e + 1 < 2 ^ 31"
  shows "\<exists>f y'. pitchYin ar y frame = Some (f, y')"
  using assms
  by (simp add: pitchYin_def Let_def searchForOtherRecentMinima_def)


theorem pitchYin_refined_lag_witness:
  "\<exists>f y' x.
     pitchYin exact_arith (YIN_new exact_arith 8000 8)
       [Fin 0, Fin 0, Fin 0, Fin 0, Fin 0, Fin 1, Fin 1, Fin 0] = Some (f, y') \<and>
     delta y' = [Fin 1, Fin 0, Fin 2, Fin 2] \<and>
     searchForOtherRecentMinima (YIN_new exact_arith 8000 8\<lparr>delta := delta y'\<rparr>) (delta y') = Some 1 \<and>
     prevPeriodEstimate y' = Fin x \<and>
     (2 - 1) / 2 + (1 + 2 - 2 * 0) * (x - 1) = 0 \<and> x = 5 / 6 \<and>
     f = div32 exact_arith (int_to32 exact_arith 8000) (Fin x) \<and> f = Fin 9600"
proof -
  let ?y = "YIN_new exact_arith 8000 8"
  let ?frame = "[Fin 0, Fin 0, Fin 0, Fin 0, Fin 0, Fin 1, Fin 1, Fin 0]"
  let ?d = "[Fin 1, Fin 0, Fin 2, Fin 2]"
  let ?y' = "?y\<lparr>delta := ?d, prevPeriodEstimate := Fin (5 / 6)\<rparr>"
  from pitchYin_refined_lag[OF pitchYin_example_refined]
  obtain d cp period fPeriod where
    d: "d = cumulativeMeanNormalisedDifferenceFunction exact_arith ?y ?frame"
    and cp: "searchForOtherRecentMinima (?y\<lparr>delta := d\<rparr>) d = Some cp"
    and pe: "period = (if cp = - 1 then getPeriodCandidate exact_arith (?y\<lparr>delta := d\<rparr>) d
                       else nat cp)"
    and f: "Fin 9600 = div32 exact_arith (int_to32 exact_arith (fs ?y)) fPeriod"
    and p: "prevPeriodEstimate ?y' = fPeriod"
    and vertex: "rnd32 exact_arith = Fin \<and> rnd64 exact_arith = Fin \<and>
                 0 < period \<and> period < framesz ?y div 2 - 1 \<longrightarrow>
        (\<forall>a b c. d ! (period - 1) = Fin a \<and> d ! period = Fin b \<and> d ! (period + 1) = Fin c \<and>
                 a + c \<noteq> 2 * b \<longrightarrow>
           (\<exists>x. fPeriod = Fin x \<and>
                (c - a) / 2 + (a + c - 2 * b) * (x - real period) = 0 \<and>
                (a = c \<longrightarrow> x = real period)))"
    by (elim exE conjE) (rule that)
  from d have d': "d = ?d" by (simp add: cmndf_example_refined)
  from cp d' have c1: "cp = 1" by (simp add: search_example_refined)
  with pe have pe': "period = 1" by simp
  have "rnd32 exact_arith = Fin \<and> rnd64 exact_arith = Fin \<and>
        0 < period \<and> period < framesz ?y div 2 - 1"
    by (simp add: pe' YIN_new_fields exact_arith_def)
  with vertex have "\<forall>a b c. d ! (period - 1) = Fin a \<and> d ! period = Fin b \<and>
                 d ! (period + 1) = Fin c \<and> a + c \<noteq> 2 * b \<longrightarrow>
           (\<exists>x. fPeriod = Fin x \<and>
                (c - a) / 2 + (a + c - 2 * b) * (x - real period) = 0 \<and>
                (a = c \<longrightarrow> x = real period))"
    by blast
  from this[rule_format, of 1 0 2] d' pe'
  obtain x where x: "fPeriod = Fin x" and v: "(2 - 1) / 2 + (1 + 2 - 2 * 0) * (x - 1) = 0"
    by auto
  from v have x56: "x = 5 / 6" by simp
  from f x have f': "Fin 9600 = div32 exact_arith (int_to32 exact_arith 8000) (Fin x)"
    by (simp add: YIN_new_fields)
  from cp d' c1 have s: "searchForOtherRecentMinima (?y\<lparr>delta := ?d\<rparr>) ?d = Some 1" by simp
  have 1: "pitchYin exact_arith ?y ?frame = Some (Fin 9600, ?y')"
    by (rule pitchYin_example_refined)
  have 2: "delta ?y' = ?d" by simp
  have 3: "searchForOtherRecentMinima (?y\<lparr>delta := delta ?y'\<rparr>) (delta ?y') = Some 1"
    using s by simp
  have 4: "prevPeriodEstimate ?y' = Fin x" using p x by simp
  show ?thesis
    apply (rule exI[of _ "Fin 9600"], rule exI[of _ ?y'], rule exI[of _ x])
    apply (intro conjI 1 2 3 4 v x56 f' refl)
    done
qed


section \<open>Disabled features\<close>

lemma fdiv_by_zero: "fdiv v (Fin 0) = NaN \<or> fdiv v (Fin 0) = PInf \<or> fdiv v (Fin 0) = NInf"
  by (cases v) simp_all

lemma decibel_of_zero_sensitivity:
  assumes "q = NaN \<or> q = PInf \<or> q = NInf"
  shows "flt_to_u16 (fround (fadd (fsub (fmul (Fin 20) (flog10 q)) (Fin g)) (Fin 94))) = None"
  using assms by (auto simp: fsub_def flt_to_u16_def)

text \<open>
  Claim C4. \<open>getMfcc\<close> returns null when the coefficient count is 0 and \<open>getSignature\<close>
  returns null when the range count is 0, whatever the spectrum. \<open>decibelSPL\<close> has no
  such branch: with a sensitivity of 0 it divides by it, and the conversion of the
  resulting infinity or NaN to \<open>decibel_t\<close> is undefined (\<open>None\<close>) for every signal.
\<close>

theorem disabled_features:
  "(mfcccoeff (Config a) = 0 \<longrightarrow> getMfcc a Spectrum len = Some (None, a)) \<and>
   (numranges (Config a) = 0 \<longrightarrow> getSignature ar a w Spectrum len = Some (None, a)) \<and>
   (sensitivity (Config a) = Fin 0 \<longrightarrow> decibelSPL a Signal siglen = None)"
proof (intro conjI impI)
  assume "mfcccoeff (Config a) = 0"
  then show "getMfcc a Spectrum len = Some (None, a)" by (simp add: getMfcc_def)
next
  assume "numranges (Config a) = 0"
  then show "getSignature ar a w Spectrum len = Some (None, a)" by (simp add: getSignature_def)
next
  assume s: "sensitivity (Config a) = Fin 0"
  show "decibelSPL a Signal siglen = None"
  proof (cases "rms a Signal siglen")
    case None
    then show ?thesis by (simp add: decibelSPL_def)
  next
    case (Some vRms)
    from decibel_of_zero_sensitivity[OF fdiv_by_zero[of vRms]] Some s show ?thesis
      by (simp add: decibelSPL_def Let_def)
  qed
qed

lemma rms_example: "rms a [Fin 3, Fin (- 3)] 2 = Some (Fin 3)"
proof -
  have u: "[0..<2] = [0, 1]" by (simp add: upt_rec)
  have "sqrt 9 = sqrt (3\<^sup>2)" by simp
  also have "\<dots> = 3" by (simp only: real_sqrt_abs)
  finally have q: "sqrt 9 = 3" .
  show ?thesis
    by (simp add: rms_def Let_def u sq_def flt_of_u32_def q)
qed

theorem disabled_features_witness:
  "getMfcc (blank_Analyzer\<lparr>Config := defaultConfig\<lparr>mfcccoeff := 0\<rparr>\<rparr>) (Some [Fin 1, Fin 2]) 2 =
     Some (None, blank_Analyzer\<lparr>Config := defaultConfig\<lparr>mfcccoeff := 0\<rparr>\<rparr>) \<and>
   getSignature exact_arith (blank_Analyzer\<lparr>Config := defaultConfig\<lparr>numranges := 0\<rparr>\<rparr>) start_world
       (Some [Fin 1, Fin 2]) 2 =
     Some (None, blank_Analyzer\<lparr>Config := defaultConfig\<lparr>numranges := 0\<rparr>\<rparr>) \<and>
   rms (blank_Analyzer\<lparr>Config := defaultConfig\<lparr>sensitivity := Fin 0\<rparr>\<rparr>) [Fin 3, Fin (- 3)] 2 =
     Some (Fin 3) \<and>
   decibelSPL (blank_Analyzer\<lparr>Config := defaultConfig\<lparr>sensitivity := Fin 0\<rparr>\<rparr>)
       [Fin 3, Fin (- 3)] 2 = None"
proof -
  let ?m = "blank_Analyzer\<lparr>Config := defaultConfig\<lparr>mfcccoeff := 0\<rparr>\<rparr>"
  let ?s = "blank_Analyzer\<lparr>Config := defaultConfig\<lparr>numranges := 0\<rparr>\<rparr>"
  let ?d = "blank_Analyzer\<lparr>Config := defaultConfig\<lparr>sensitivity := Fin 0\<rparr>\<rparr>"
  have 1: "mfcccoeff (Config ?m) = 0" by simp
  have 2: "numranges (Config ?s) = 0" by simp
  have 3: "sensitivity (Config ?d) = Fin 0" by simp
  note a = disabled_features[where a = ?m and Spectrum = "Some [Fin 1, Fin 2]" and len = 2,
             THEN conjunct1, rule_format, OF 1]
  note b = disabled_features[where a = ?s and ar = exact_arith and w = start_world and Spectrum = "Some [Fin 1, Fin 2]"
               and len = 2,
             THEN conjunct2, THEN conjunct1, rule_format, OF 2]
  note c = disabled_features[where a = ?d and Signal = "[Fin 3, Fin (- 3)]" and siglen = 2,
             THEN conjunct2, THEN conjunct2, rule_format, OF 3]
  show ?thesis
    by (intro conjI a b c rms_example)
qed


end
